theory Spec2Isabelle
  imports Main "HOL-Library.Word" "HOL-Library.AList"
begin

unbundle bit_operations_syntax

section \<open>JavaScript values shared by the worker and the facade\<close>

text \<open>
  A JavaScript string is a sequence of 16-bit code units; \<open>length\<close> and \<open>charCodeAt\<close>
  count code units. Paths, file names and text payloads are such strings. Command and
  event names, which the program only ever writes as ASCII literals, are HOL strings.
\<close>

type_synonym jsstring = "16 word list"
type_synonym byte = "8 word"

definition js :: "string \<Rightarrow> jsstring" where
  "js s = map of_char s"

definition SLASH :: "16 word" where
  "SLASH = 47"

text \<open>
  Exceptions thrown synchronously inside the worker: a failed \<open>console.assert\<close> (which
  throws in the Node releases the worker runs on), the two checks a checked
  \<open>Buffer\<close> write performs (the offset lies inside the buffer, the value is an integer in
  the range of the written width), and the \<open>TypeError\<close> of an operation applied to a
  value of the wrong kind.
\<close>

datatype js_exn = AssertionError | OutOfBounds | BadValue | TypeError

text \<open>
  A rejection reason. \<open>OperationalError c\<close> is the error object of a promisified \<open>fs\<close>
  call; \<open>c\<close> is its \<open>cause.code\<close> if it has one. \<open>BinaryFile\<close> is the string
  \<open>"Binary file"\<close> given to \<open>Promise.rejected\<close>. \<open>Thrown e\<close> is an exception raised
  inside a promise callback. Every one of them is a truthy value.
\<close>

datatype js_err = OperationalError "string option" | BinaryFile | Thrown js_exn

text \<open>
  The argument values of the calls that cross the channel between the facade and the
  worker: paths, lists of paths, text and encodings, \<open>null\<close>, and \<open>undefined\<close> for an
  argument that is not given.
\<close>

datatype js_val = VUndefined | VNull | VStr jsstring | VStrs "jsstring list"

text \<open>The \<open>fs.Stats\<close> object of Node, as far as the worker reads it.\<close>

record fs_stats =
  st_isDirectory :: bool
  st_isSymbolicLink :: bool
  st_mtime :: int
  st_size :: nat

section \<open>Buffers (worker side)\<close>

text \<open>
  \<open>new Buffer(n)\<close> is \<open>n\<close> bytes of uninitialised memory: a cell is \<open>None\<close> until it is
  written.
\<close>

type_synonym buffer = "byte option list"

definition newBuffer :: "nat \<Rightarrow> buffer" where
  "newBuffer n = replicate n None"

text \<open>
  \<open>buf.writeUInt16LE(value, offset)\<close>. The value is a JavaScript number: \<open>Some n\<close> for an
  integer, \<open>None\<close> for \<open>NaN\<close>.
\<close>

definition writeUInt16LE :: "int option \<Rightarrow> nat \<Rightarrow> buffer \<Rightarrow> js_exn + buffer" where
  "writeUInt16LE v off buf =
     (if \<not> off + 1 < length buf then Inl OutOfBounds
      else case v of
        None \<Rightarrow> Inl BadValue
      | Some n \<Rightarrow>
          if n < 0 \<or> 65535 < n then Inl BadValue
          else Inr (buf[off := Some (word_of_int n), off + 1 := Some (word_of_int (n div 256))]))"

definition writeUInt8 :: "int \<Rightarrow> nat \<Rightarrow> buffer \<Rightarrow> js_exn + buffer" where
  "writeUInt8 n off buf =
     (if \<not> off < length buf then Inl OutOfBounds
      else if n < 0 \<or> 255 < n then Inl BadValue
      else Inr (buf[off := Some (word_of_int n)]))"

text \<open>
  \<open>buf.writeDoubleLE(value, offset)\<close>: the eight bytes of the binary64 bit pattern, least
  significant first. The bit pattern itself is computed by the platform
  (\<open>f64bits\<close> below).
\<close>

definition le_bytes64 :: "64 word \<Rightarrow> byte list" where
  "le_bytes64 w = map (\<lambda>k. ucast (drop_bit (8 * k) w)) [0..<8]"

fun write_bytes :: "byte list \<Rightarrow> nat \<Rightarrow> buffer \<Rightarrow> buffer" where
  "write_bytes [] off buf = buf"
| "write_bytes (b # bs) off buf = write_bytes bs (Suc off) (buf[off := Some b])"

definition writeDoubleLE :: "64 word \<Rightarrow> nat \<Rightarrow> buffer \<Rightarrow> js_exn + buffer" where
  "writeDoubleLE w off buf =
     (if \<not> off + 7 < length buf then Inl OutOfBounds
      else Inr (write_bytes (le_bytes64 w) off buf))"

text \<open>\<open>str.charCodeAt(i)\<close>: the code unit at \<open>i\<close>, \<open>NaN\<close> past the end.\<close>

definition charCodeAt :: "jsstring \<Rightarrow> nat \<Rightarrow> int option" where
  "charCodeAt s i = (if i < length s then Some (uint (s ! i)) else None)"

section \<open>The stat codec: \<open>_getStatsBuffer\<close>\<close>

text \<open>The \<open>for\<close> loop of lines 77 to 80, over the values \<open>i\<close> takes.\<close>

fun writeRealpath :: "jsstring \<Rightarrow> nat list \<Rightarrow> buffer \<Rightarrow> js_exn + buffer" where
  "writeRealpath rp [] buf = Inr buf"
| "writeRealpath rp (i # is) buf =
     (case writeUInt16LE (charCodeAt rp i) (2 * i + 18) buf of
        Inl e \<Rightarrow> Inl e
      | Inr buf' \<Rightarrow> writeRealpath rp is buf')"

text \<open>
  \<open>realpath ? realpath.length * 2 : 0\<close>: an absent and an empty path both count zero.
\<close>

definition realpathBytes :: "jsstring option \<Rightarrow> nat" where
  "realpathBytes realpath = (case realpath of None \<Rightarrow> 0 | Some s \<Rightarrow> length s * 2)"

definition fileBit :: "fs_stats \<Rightarrow> nat" where
  "fileBit stats = (if st_isDirectory stats then 0 else 1)"

text \<open>
  \<open>(realpathBytes << 1) | fileBit\<close>. The shift is a 32-bit one in JavaScript; the value
  is only written after the assertion \<open>realpathBytes < 32768\<close> has passed, where it does
  not wrap.
\<close>

definition flags :: "fs_stats \<Rightarrow> jsstring option \<Rightarrow> nat" where
  "flags stats realpath = push_bit 1 (realpathBytes realpath) OR fileBit stats"

text \<open>Lines 66 to 75: allocation, assertion and the 18 bytes of the fixed part.\<close>

definition pathChars :: "jsstring option \<Rightarrow> nat" where
  "pathChars realpath = (case realpath of None \<Rightarrow> 0 | Some s \<Rightarrow> length s)"

text \<open>
  \<open>holdsUInt16LE buf off v\<close>: the two bytes of \<open>buf\<close> at \<open>off\<close> have been written and are
  the little-endian 16-bit representation of \<open>v\<close>.
\<close>

definition holdsUInt16LE :: "buffer \<Rightarrow> nat \<Rightarrow> nat \<Rightarrow> bool" where
  "holdsUInt16LE buf off v =
     (off + 1 < length buf \<and>
      (case (buf ! off, buf ! (off + 1)) of
         (Some lo, Some hi) \<Rightarrow> unat lo + 256 * unat hi = v
       | _ \<Rightarrow> False))"

definition statsHeader ::
  "(int \<Rightarrow> 64 word) \<Rightarrow> fs_stats \<Rightarrow> jsstring option \<Rightarrow> js_exn + buffer" where
  "statsHeader f64bits stats realpath =
     (let buffer = newBuffer (18 + realpathBytes realpath) in
      if \<not> realpathBytes realpath < 32768 then Inl AssertionError
      else case writeDoubleLE (f64bits (st_mtime stats)) 0 buffer of
        Inl e \<Rightarrow> Inl e
      | Inr b1 \<Rightarrow>
          (case writeDoubleLE (f64bits (int (st_size stats))) 8 b1 of
             Inl e \<Rightarrow> Inl e
           | Inr b2 \<Rightarrow> writeUInt16LE (Some (int (flags stats realpath))) 16 b2))"

definition getStatsBuffer ::
  "(int \<Rightarrow> 64 word) \<Rightarrow> fs_stats \<Rightarrow> jsstring option \<Rightarrow> js_exn + buffer" where
  "getStatsBuffer f64bits stats realpath =
     (case statsHeader f64bits stats realpath of
        Inl e \<Rightarrow> Inl e
      | Inr buffer \<Rightarrow>
          writeRealpath (case realpath of None \<Rightarrow> [] | Some s \<Rightarrow> s)
            [0..<realpathBytes realpath] buffer)"

text \<open>
  \<open>_getStatsObject\<close>: the structured form. \<open>if (realpath)\<close> keeps a non-empty path only.
  The fields \<open>data\<close>, \<open>created\<close> and \<open>name\<close> are the ones later handlers add to the
  object.
\<close>

record stat_obj =
  so_isFile :: bool
  so_mtime :: int
  so_size :: nat
  so_realpath :: "jsstring option"
  so_data :: "jsstring option"
  so_created :: "bool option"
  so_name :: "jsstring option"

definition getStatsObject :: "fs_stats \<Rightarrow> jsstring option \<Rightarrow> stat_obj" where
  "getStatsObject stats realpath =
     \<lparr>so_isFile = \<not> st_isDirectory stats,
      so_mtime = st_mtime stats,
      so_size = st_size stats,
      so_realpath = (case realpath of None \<Rightarrow> None | Some s \<Rightarrow> if s = [] then None else Some s),
      so_data = None, so_created = None, so_name = None\<rparr>"

section \<open>The platform under the worker\<close>

text \<open>
  The operating system and the libraries the worker calls are outside the program; they
  are taken as a record of functions over an abstract file-system state \<open>'s\<close>. An
  \<open>fs\<close> call that fails yields its rejection reason. \<open>os_watch\<close> tells whether creating a
  watcher on a path succeeds, \<open>os_closeThrows\<close> whether stopping a watcher throws.
  \<open>f64bits\<close> is the binary64 bit pattern of a number, \<open>isBinaryFile\<close> the check of the
  library of that name, \<open>bufToString\<close> is \<open>Buffer.toString(encoding)\<close>, and \<open>strencode\<close> is
  \<open>unescape(encodeURIComponent(JSON.stringify(data)))\<close>.
\<close>

record 's platform =
  os_lstat :: "'s \<Rightarrow> jsstring \<Rightarrow> js_err + fs_stats"
  os_stat :: "'s \<Rightarrow> jsstring \<Rightarrow> js_err + fs_stats"
  os_realpath :: "'s \<Rightarrow> jsstring \<Rightarrow> js_err + jsstring"
  os_exists :: "'s \<Rightarrow> jsstring \<Rightarrow> bool"
  os_readFile :: "'s \<Rightarrow> jsstring \<Rightarrow> js_err + byte list"
  os_writeFile :: "'s \<Rightarrow> jsstring \<Rightarrow> jsstring \<Rightarrow> js_val \<Rightarrow> js_err + 's"
  os_readdir :: "'s \<Rightarrow> jsstring \<Rightarrow> js_err + jsstring list"
  os_mkdir :: "'s \<Rightarrow> jsstring \<Rightarrow> js_val \<Rightarrow> js_err + 's"
  os_rename :: "'s \<Rightarrow> jsstring \<Rightarrow> jsstring \<Rightarrow> js_err + 's"
  os_remove :: "'s \<Rightarrow> jsstring \<Rightarrow> js_err + 's"
  os_watch :: "'s \<Rightarrow> js_val \<Rightarrow> bool"
  os_closeThrows :: "nat \<Rightarrow> bool"
  f64bits :: "int \<Rightarrow> 64 word"
  isBinaryFile :: "byte list \<Rightarrow> nat \<Rightarrow> bool"
  bufToString :: "js_val \<Rightarrow> byte list \<Rightarrow> js_exn + jsstring"
  strencode :: "jsstring \<Rightarrow> jsstring"

section \<open>The worker's file commands\<close>

text \<open>
  Lines 94 to 98 of \<open>_statHelper\<close>: one trailing separator is dropped. For the empty path
  \<open>last\<close> is \<open>-1\<close> and \<open>path[-1]\<close> is \<open>undefined\<close>.
\<close>

definition stripSlash :: "jsstring \<Rightarrow> jsstring" where
  "stripSlash path = (if path \<noteq> [] \<and> last path = SLASH then butlast path else path)"

text \<open>
  Line 108 reads \<open>realpath[realpath - 1]\<close>. The subtraction turns the string into a number:
  \<open>NaN\<close> for every string that is not a numeric literal, and every string holding a
  separator is none. So the index is \<open>NaN\<close> and the read gives \<open>undefined\<close>, or the string
  is a numeric literal and the read gives \<open>undefined\<close> or one of its characters, which
  is no separator. The read never yields \<open>"/"\<close>.
\<close>

definition realpathAtRealpathMinus1IsSlash :: "jsstring \<Rightarrow> bool" where
  "realpathAtRealpathMinus1IsSlash realpath = False"

text \<open>
  \<open>_statHelper\<close> up to its call of \<open>_formatStats\<close>: the \<open>Stats\<close> object and the resolved
  path that call is given. \<open>Promise.join\<close> rejects with the rejection of whichever of
  its promises fails; when both fail the model reports the one of \<open>realpath\<close>.
\<close>

definition statTarget ::
  "'s platform \<Rightarrow> 's \<Rightarrow> jsstring \<Rightarrow> js_err + (fs_stats \<times> jsstring option)" where
  "statTarget pf s path0 =
     (let path = stripSlash path0 in
      case os_lstat pf s path of
        Inl e \<Rightarrow> Inl e
      | Inr lstats \<Rightarrow>
          if st_isSymbolicLink lstats then
            (case os_realpath pf s path of
               Inl e \<Rightarrow> Inl e
             | Inr realpath \<Rightarrow>
                 (case os_stat pf s path of
                    Inl e \<Rightarrow> Inl e
                  | Inr stats \<Rightarrow>
                      Inr (stats,
                        Some (if st_isDirectory stats \<and> \<not> realpathAtRealpathMinus1IsSlash realpath
                              then realpath @ [SLASH] else realpath))))
          else Inr (lstats, None))"

text \<open>
  \<open>_formatStats\<close> chooses the buffer for \<open>encoding === null\<close> and the object otherwise;
  \<open>_statHelper\<close> is given here once for each of the two. An exception of the encoder is
  raised inside the promise callback and rejects the promise.
\<close>

definition statBuffer :: "'s platform \<Rightarrow> 's \<Rightarrow> jsstring \<Rightarrow> js_err + buffer" where
  "statBuffer pf s path =
     (case statTarget pf s path of
        Inl e \<Rightarrow> Inl e
      | Inr (stats, realpath) \<Rightarrow>
          (case getStatsBuffer (f64bits pf) stats realpath of
             Inl x \<Rightarrow> Inl (Thrown x)
           | Inr buf \<Rightarrow> Inr buf))"

definition statObject :: "'s platform \<Rightarrow> 's \<Rightarrow> jsstring \<Rightarrow> js_err + stat_obj" where
  "statObject pf s path =
     (case statTarget pf s path of
        Inl e \<Rightarrow> Inl e
      | Inr (stats, realpath) \<Rightarrow> Inr (getStatsObject stats realpath))"

text \<open>What a worker promise resolves with: a buffer or a structured object.\<close>

datatype repr = AsBuffer buffer | AsObject stat_obj

definition statHelper :: "'s platform \<Rightarrow> 's \<Rightarrow> jsstring \<Rightarrow> js_val \<Rightarrow> js_err + repr" where
  "statHelper pf s path encoding =
     (if encoding = VNull then map_sum id AsBuffer (statBuffer pf s path)
      else map_sum id AsObject (statObject pf s path))"

text \<open>
  \<open>_readFileHelper\<close>, again once for each of the two encodings. When both the read and
  the stat fail, the model reports the rejection of the read.
\<close>

definition readFileBuffer :: "'s platform \<Rightarrow> 's \<Rightarrow> jsstring \<Rightarrow> js_err + buffer" where
  "readFileBuffer pf s path =
     (case os_readFile pf s path of
        Inl e \<Rightarrow> Inl e
      | Inr bytes \<Rightarrow>
          (case statBuffer pf s path of
             Inl e \<Rightarrow> Inl e
           | Inr stats \<Rightarrow> Inr (stats @ map Some bytes)))"

definition readFileObject ::
  "'s platform \<Rightarrow> 's \<Rightarrow> jsstring \<Rightarrow> js_val \<Rightarrow> js_err + stat_obj" where
  "readFileObject pf s path encoding =
     (case os_readFile pf s path of
        Inl e \<Rightarrow> Inl e
      | Inr bytes \<Rightarrow>
          (case statObject pf s path of
             Inl e \<Rightarrow> Inl e
           | Inr stats \<Rightarrow>
               if isBinaryFile pf bytes (so_size stats) then Inl BinaryFile
               else (case bufToString pf encoding bytes of
                       Inl x \<Rightarrow> Inl (Thrown x)
                     | Inr stringData \<Rightarrow>
                         Inr (stats\<lparr>so_data := Some (strencode pf stringData)\<rparr>))))"

definition readFileHelper ::
  "'s platform \<Rightarrow> 's \<Rightarrow> jsstring \<Rightarrow> js_val \<Rightarrow> js_err + repr" where
  "readFileHelper pf s path encoding =
     (if encoding = VNull then map_sum id AsBuffer (readFileBuffer pf s path)
      else map_sum id AsObject (readFileObject pf s path encoding))"

text \<open>
  What the worker sends back. An \<open>item\<close> is an element of a list result: a stats object,
  or an object holding an \<open>err\<close> (and, in a directory listing, a \<open>name\<close>).
\<close>

datatype item = Item stat_obj | ErrItem "jsstring option" js_err

datatype wire = WBuffer buffer | WObject stat_obj | WItems "item list" | WBool bool | WUndefined

definition wireOf :: "repr \<Rightarrow> wire" where
  "wireOf r = (case r of AsBuffer b \<Rightarrow> WBuffer b | AsObject obj \<Rightarrow> WObject obj)"

text \<open>
  \<open>readAllFilesCmd\<close>: every path is read on its own and \<open>Promise.settle\<close> waits for all
  of them, fulfilled or rejected. In binary mode an entry is the byte 0 followed by the
  value, or the byte 1 alone, and the entries are concatenated; otherwise the entries
  are the list of values and \<open>{err: reason}\<close> objects.
\<close>

definition binaryEntry :: "js_err + buffer \<Rightarrow> buffer" where
  "binaryEntry inspector =
     (case inspector of Inr v \<Rightarrow> Some 0 # v | Inl e \<Rightarrow> [Some 1])"

definition textEntry :: "js_err + stat_obj \<Rightarrow> item" where
  "textEntry inspector =
     (case inspector of Inr v \<Rightarrow> Item v | Inl e \<Rightarrow> ErrItem None e)"

definition readAllFilesCmd ::
  "'s platform \<Rightarrow> 's \<Rightarrow> jsstring list \<Rightarrow> js_val \<Rightarrow> js_err + wire" where
  "readAllFilesCmd pf s paths encoding =
     (if encoding = VNull
      then Inr (WBuffer (concat (map (\<lambda>path. binaryEntry (readFileBuffer pf s path)) paths)))
      else Inr (WItems (map (\<lambda>path. textEntry (readFileObject pf s path encoding)) paths)))"

definition readFileCmd :: "'s platform \<Rightarrow> 's \<Rightarrow> jsstring \<Rightarrow> js_val \<Rightarrow> js_err + wire" where
  "readFileCmd pf s path encoding = map_sum id wireOf (readFileHelper pf s path encoding)"

text \<open>\<open>statCmd\<close> calls \<open>_statHelper(path)\<close>: the encoding is \<open>undefined\<close>.\<close>

definition statCmd :: "'s platform \<Rightarrow> 's \<Rightarrow> jsstring \<Rightarrow> js_err + wire" where
  "statCmd pf s path = map_sum id wireOf (statHelper pf s path VUndefined)"

definition existsCmd :: "'s platform \<Rightarrow> 's \<Rightarrow> jsstring \<Rightarrow> bool" where
  "existsCmd pf s path = os_exists pf s path"

text \<open>
  \<open>readdirCmd\<close> stats \<open>path + name\<close> for every name, and labels each result, or each
  failure, with the name.
\<close>

definition readdirCmd :: "'s platform \<Rightarrow> 's \<Rightarrow> jsstring \<Rightarrow> js_err + wire" where
  "readdirCmd pf s path =
     (case os_readdir pf s path of
        Inl e \<Rightarrow> Inl e
      | Inr names \<Rightarrow>
          Inr (WItems (map (\<lambda>name.
                 case statObject pf s (path @ name) of
                   Inr stats \<Rightarrow> Item (stats\<lparr>so_name := Some name\<rparr>)
                 | Inl e \<Rightarrow> ErrItem (Some name) e) names)))"

text \<open>
  \<open>writeFileCmd\<close> asks \<open>existsCmd\<close> first, writes, stats the path again and sets
  \<open>created\<close> to the negation of what \<open>existsCmd\<close> answered. It returns the new state
  of the file system with its result.
\<close>

definition writeFileCmd ::
  "'s platform \<Rightarrow> 's \<Rightarrow> jsstring \<Rightarrow> jsstring \<Rightarrow> js_val \<Rightarrow> (js_err + wire) \<times> 's" where
  "writeFileCmd pf s path dat encoding =
     (let exists = existsCmd pf s path in
      case os_writeFile pf s path dat encoding of
        Inl e \<Rightarrow> (Inl e, s)
      | Inr s' \<Rightarrow>
          (case statObject pf s' path of
             Inl e \<Rightarrow> (Inl e, s')
           | Inr stats \<Rightarrow> (Inr (WObject (stats\<lparr>so_created := Some (\<not> exists)\<rparr>)), s')))"

definition mkdirCmd ::
  "'s platform \<Rightarrow> 's \<Rightarrow> jsstring \<Rightarrow> js_val \<Rightarrow> (js_err + wire) \<times> 's" where
  "mkdirCmd pf s path mode =
     (case os_mkdir pf s path mode of
        Inl e \<Rightarrow> (Inl e, s)
      | Inr s' \<Rightarrow> (map_sum id WObject (statObject pf s' path), s'))"

definition renameCmd ::
  "'s platform \<Rightarrow> 's \<Rightarrow> jsstring \<Rightarrow> jsstring \<Rightarrow> (js_err + wire) \<times> 's" where
  "renameCmd pf s oldPath newPath =
     (case os_rename pf s oldPath newPath of
        Inl e \<Rightarrow> (Inl e, s)
      | Inr s' \<Rightarrow> (Inr WUndefined, s'))"

definition unlinkCmd :: "'s platform \<Rightarrow> 's \<Rightarrow> jsstring \<Rightarrow> (js_err + wire) \<times> 's" where
  "unlinkCmd pf s path =
     (case os_remove pf s path of
        Inl e \<Rightarrow> (Inl e, s)
      | Inr s' \<Rightarrow> (Inr WUndefined, s'))"

section \<open>The worker's watchers\<close>

text \<open>
  \<open>_watcherMap\<close> is an object used as a dictionary: an association list in insertion
  order. A key is the string a value turns into when it is used as a property name.
\<close>

fun joinComma :: "jsstring list \<Rightarrow> jsstring" where
  "joinComma [] = []"
| "joinComma [x] = x"
| "joinComma (x # y # ys) = x @ [44] @ joinComma (y # ys)"

definition propertyKey :: "js_val \<Rightarrow> jsstring" where
  "propertyKey v =
     (case v of
        VUndefined \<Rightarrow> js ''undefined''
      | VNull \<Rightarrow> js ''null''
      | VStr str \<Rightarrow> str
      | VStrs strs \<Rightarrow> joinComma strs)"

text \<open>
  The worker: the file system it works on, the watcher map, the number of watchers
  created so far (a watcher is named by its number), and the watchers that have been
  started and not stopped.
\<close>

record 's worker =
  fsState :: 's
  watcherMap :: "(jsstring \<times> nat) list"
  watcherCount :: nat
  running :: "nat list"

text \<open>
  \<open>unwatchPath\<close>: a watcher found under the path is stopped; when stopping throws, the
  exception is caught and logged; in both cases the entry is deleted.
\<close>

definition unwatchPath :: "'s platform \<Rightarrow> js_val \<Rightarrow> 's worker \<Rightarrow> 's worker" where
  "unwatchPath pf path w =
     (case map_of (watcherMap w) (propertyKey path) of
        None \<Rightarrow> w
      | Some watcher \<Rightarrow>
          w\<lparr>running := (if os_closeThrows pf watcher then running w
                         else removeAll watcher (running w)),
            watcherMap := AList.delete (propertyKey path) (watcherMap w)\<rparr>)"

text \<open>
  \<open>watchPath\<close>: nothing happens when the map has the path as an own property. Otherwise
  a watcher is created and stored; when creating it throws, the exception is caught and
  logged and the map stays as it is.
\<close>

definition watchPath :: "'s platform \<Rightarrow> js_val \<Rightarrow> 's worker \<Rightarrow> 's worker" where
  "watchPath pf path w =
     (if propertyKey path \<in> fst ` set (watcherMap w) then w
      else if os_watch pf (fsState w) path then
        w\<lparr>watcherMap := AList.update (propertyKey path) (watcherCount w) (watcherMap w),
          watcherCount := Suc (watcherCount w),
          running := running w @ [watcherCount w]\<rparr>
      else w)"

text \<open>\<open>unwatchAll\<close>: \<open>unwatchPath\<close> for every own key of the map.\<close>

definition unwatchAll :: "'s platform \<Rightarrow> 's worker \<Rightarrow> 's worker" where
  "unwatchAll pf w = fold (\<lambda>path. unwatchPath pf (VStr path)) (map fst (watcherMap w)) w"

section \<open>The worker's command table\<close>

text \<open>
  \<open>init\<close> registers twelve commands under the domain \<open>fileSystem\<close>; the table lists each
  name with the function given to \<open>registerCommand\<close>, in the order of the source.
\<close>

datatype handler =
    Fn_readdirCmd | Fn_readFileCmd | Fn_readAllFilesCmd | Fn_statCmd | Fn_writeFileCmd
  | Fn_mkdirCmd | Fn_renameCmd | Fn_unlinkCmd | Fn_watchPath | Fn_unwatchPath | Fn_unwatchAll

definition registeredCommands :: "(string \<times> handler) list" where
  "registeredCommands =
     [(''readdir'', Fn_readdirCmd),
      (''readFile'', Fn_readFileCmd),
      (''readAllFiles'', Fn_readAllFilesCmd),
      (''stat'', Fn_statCmd),
      (''exists'', Fn_statCmd),
      (''writeFile'', Fn_writeFileCmd),
      (''mkdir'', Fn_mkdirCmd),
      (''rename'', Fn_renameCmd),
      (''unlink'', Fn_unlinkCmd),
      (''watchPath'', Fn_watchPath),
      (''unwatchPath'', Fn_unwatchPath),
      (''unwatchAll'', Fn_unwatchAll)]"

text \<open>
  A call brings a list of arguments; a parameter with no argument is \<open>undefined\<close>. The
  result is what the handler calls back with: an error or a value. A file command given
  something that is not a string where it needs one fails with a \<open>TypeError\<close>.
\<close>

definition arg :: "js_val list \<Rightarrow> nat \<Rightarrow> js_val" where
  "arg args i = (if i < length args then args ! i else VUndefined)"

type_synonym 'w reply = "(js_err option + wire) \<times> 'w"

definition badArgument :: "'s worker \<Rightarrow> 's worker reply" where
  "badArgument w = (Inl (Some (Thrown TypeError)), w)"

definition pureReply :: "'s worker \<Rightarrow> js_err + wire \<Rightarrow> 's worker reply" where
  "pureReply w r = (map_sum Some id r, w)"

definition stateReply :: "'s worker \<Rightarrow> (js_err + wire) \<times> 's \<Rightarrow> 's worker reply" where
  "stateReply w r = (map_sum Some id (fst r), w\<lparr>fsState := snd r\<rparr>)"

definition applyHandler ::
  "'s platform \<Rightarrow> handler \<Rightarrow> js_val list \<Rightarrow> 's worker \<Rightarrow> 's worker reply" where
  "applyHandler pf h args w =
     (case h of
        Fn_readdirCmd \<Rightarrow>
          (case arg args 0 of
             VStr path \<Rightarrow> pureReply w (readdirCmd pf (fsState w) path)
           | _ \<Rightarrow> badArgument w)
      | Fn_readFileCmd \<Rightarrow>
          (case arg args 0 of
             VStr path \<Rightarrow> pureReply w (readFileCmd pf (fsState w) path (arg args 1))
           | _ \<Rightarrow> badArgument w)
      | Fn_readAllFilesCmd \<Rightarrow>
          (case arg args 0 of
             VStrs paths \<Rightarrow> pureReply w (readAllFilesCmd pf (fsState w) paths (arg args 1))
           | _ \<Rightarrow> badArgument w)
      | Fn_statCmd \<Rightarrow>
          (case arg args 0 of
             VStr path \<Rightarrow> pureReply w (statCmd pf (fsState w) path)
           | _ \<Rightarrow> badArgument w)
      | Fn_writeFileCmd \<Rightarrow>
          (case (arg args 0, arg args 1) of
             (VStr path, VStr dat) \<Rightarrow>
               stateReply w (writeFileCmd pf (fsState w) path dat (arg args 2))
           | _ \<Rightarrow> badArgument w)
      | Fn_mkdirCmd \<Rightarrow>
          (case arg args 0 of
             VStr path \<Rightarrow> stateReply w (mkdirCmd pf (fsState w) path (arg args 1))
           | _ \<Rightarrow> badArgument w)
      | Fn_renameCmd \<Rightarrow>
          (case (arg args 0, arg args 1) of
             (VStr oldPath, VStr newPath) \<Rightarrow>
               stateReply w (renameCmd pf (fsState w) oldPath newPath)
           | _ \<Rightarrow> badArgument w)
      | Fn_unlinkCmd \<Rightarrow>
          (case arg args 0 of
             VStr path \<Rightarrow> stateReply w (unlinkCmd pf (fsState w) path)
           | _ \<Rightarrow> badArgument w)
      | Fn_watchPath \<Rightarrow> (Inr WUndefined, watchPath pf (arg args 0) w)
      | Fn_unwatchPath \<Rightarrow> (Inr WUndefined, unwatchPath pf (arg args 0) w)
      | Fn_unwatchAll \<Rightarrow> (Inr WUndefined, unwatchAll pf w))"

text \<open>
  The worker as the far end of the channel: the command registered under the name is
  applied to the arguments. A name with no command fails before any handler runs.
\<close>

definition dispatch ::
  "'s platform \<Rightarrow> string \<Rightarrow> js_val list \<Rightarrow> 's worker \<Rightarrow> 's worker reply" where
  "dispatch pf name args w =
     (case map_of registeredCommands name of
        None \<Rightarrow> badArgument w
      | Some h \<Rightarrow> applyHandler pf h args w)"

section \<open>The facade: errors and stats\<close>

text \<open>
  Modelled from the spec: the constants of the module \<open>filesystem/FileSystemError\<close>, which
  the facade requires and this repository does not hold. The spec lists the error kinds
  a caller can be given; they are distinct values.
\<close>

datatype FileSystemError =
    INVALID_PARAMS | NOT_FOUND | NOT_READABLE | NOT_WRITABLE | OUT_OF_SPACE
  | ALREADY_EXISTS | CONTENTS_MODIFIED | UNKNOWN

text \<open>
  Modelled from the spec: the class \<open>filesystem/FileSystemStats\<close>, which the facade
  requires and this repository does not hold. It keeps the options it is constructed
  from; \<open>fss_hash\<close> is the field the facade reads as \<open>_hash\<close>.
\<close>

record FileSystemStats =
  fss_isFile :: bool
  fss_mtime :: int
  fss_size :: nat
  fss_hash :: int
  fss_realPath :: "jsstring option"

text \<open>
  \<open>_mapNodeError\<close>. The argument is \<open>None\<close> for a falsy error. Only an error object has
  a \<open>cause\<close>; the string and the exceptions fall to the default case.
\<close>

definition mapNodeError :: "js_err option \<Rightarrow> FileSystemError" where
  "mapNodeError err =
     (case err of
        None \<Rightarrow> UNKNOWN
      | Some (OperationalError (Some code)) \<Rightarrow>
          if code = ''ENOENT'' then NOT_FOUND
          else if code = ''EEXIST'' then ALREADY_EXISTS
          else if code = ''EPERM'' then NOT_READABLE
          else UNKNOWN
      | Some _ \<Rightarrow> UNKNOWN)"

definition mapNodeStats :: "stat_obj \<Rightarrow> FileSystemStats" where
  "mapNodeStats stats =
     \<lparr>fss_isFile = so_isFile stats,
      fss_mtime = so_mtime stats,
      fss_size = so_size stats,
      fss_hash = so_mtime stats,
      fss_realPath = so_realpath stats\<rparr>"

section \<open>The facade: calls over the channel\<close>

text \<open>
  The channel takes the name of a command and its arguments to the far end, whose state
  is \<open>'w\<close>, and brings back an error or a value. Both versions of the facade issue the
  same calls: one through \<open>_execWhenConnected\<close>, the other through \<open>_enqueueRequest\<close> and
  \<open>_nodeDomain.exec\<close>. Every operation returns what its callback is given, the state of
  the far end, and the calls it issued, in order.
\<close>

type_synonym rpc = "string \<times> js_val list"
type_synonym 'w channel = "string \<Rightarrow> js_val list \<Rightarrow> 'w \<Rightarrow> 'w reply"

text \<open>
  What a callback is given: an error kind, or a payload. \<open>CbNone\<close> stands for a handler
  that did not reach its callback: it threw on the reply, or the reply has a shape the
  command never sends.
\<close>

datatype 'a cb = CbErr FileSystemError | CbOk 'a | CbNone

definition stat :: "'w channel \<Rightarrow> 'w \<Rightarrow> jsstring \<Rightarrow> FileSystemStats cb \<times> 'w \<times> rpc list" where
  "stat chan w path =
     (case chan ''stat'' [VStr path] w of
        (Inr (WObject statObj), w') \<Rightarrow> (CbOk (mapNodeStats statObj), w', [(''stat'', [VStr path])])
      | (Inr _, w') \<Rightarrow> (CbNone, w', [(''stat'', [VStr path])])
      | (Inl err, w') \<Rightarrow> (CbErr (mapNodeError err), w', [(''stat'', [VStr path])]))"

text \<open>\<open>exists\<close> hands the value of the reply to its callback as it is.\<close>

definition exists :: "'w channel \<Rightarrow> 'w \<Rightarrow> jsstring \<Rightarrow> wire cb \<times> 'w \<times> rpc list" where
  "exists chan w path =
     (case chan ''exists'' [VStr path] w of
        (Inr v, w') \<Rightarrow> (CbOk v, w', [(''exists'', [VStr path])])
      | (Inl err, w') \<Rightarrow> (CbErr (mapNodeError err), w', [(''exists'', [VStr path])]))"

text \<open>
  The options of a read or a write: \<open>encoding\<close> and, for a write, \<open>hash\<close>, a hash seen
  earlier. \<open>None\<close> is a missing property. \<open>options.encoding || "utf8"\<close> also replaces an
  empty string.
\<close>

record options =
  opt_encoding :: "jsstring option"
  opt_hash :: "int option"

definition encodingOf :: "options \<Rightarrow> jsstring" where
  "encodingOf opts =
     (case opt_encoding opts of
        None \<Rightarrow> js ''utf8''
      | Some e \<Rightarrow> if e = [] then js ''utf8'' else e)"

text \<open>
  \<open>strdecode\<close> is \<open>JSON.parse(decodeURIComponent(escape(data)))\<close>, a parameter like the
  worker's \<open>strencode\<close>. Applied to a missing \<open>data\<close> it throws.
\<close>

definition readFile ::
  "'w channel \<Rightarrow> (jsstring \<Rightarrow> jsstring) \<Rightarrow> 'w \<Rightarrow> jsstring \<Rightarrow> options \<Rightarrow>
   (jsstring \<times> FileSystemStats) cb \<times> 'w \<times> rpc list" where
  "readFile chan strdecode w path opts =
     (let call = (''readFile'', [VStr path, VStr (encodingOf opts)]) in
      case chan (fst call) (snd call) w of
        (Inr (WObject statObj), w') \<Rightarrow>
          (case so_data statObj of
             Some d \<Rightarrow> (CbOk (strdecode d, mapNodeStats statObj), w', [call])
           | None \<Rightarrow> (CbNone, w', [call]))
      | (Inr _, w') \<Rightarrow> (CbNone, w', [call])
      | (Inl err, w') \<Rightarrow> (CbErr (mapNodeError err), w', [call]))"

text \<open>
  \<open>readAllFiles\<close> maps every element of the reply: an element with an \<open>err\<close> to its
  error kind, any other to its decoded data and stats.
\<close>

definition mapResult ::
  "(jsstring \<Rightarrow> jsstring) \<Rightarrow> item \<Rightarrow> (FileSystemError + jsstring \<times> FileSystemStats) option" where
  "mapResult strdecode obj =
     (case obj of
        ErrItem n e \<Rightarrow> Some (Inl (mapNodeError (Some e)))
      | Item statObj \<Rightarrow>
          (case so_data statObj of
             Some d \<Rightarrow> Some (Inr (strdecode d, mapNodeStats statObj))
           | None \<Rightarrow> None))"

definition readAllFiles ::
  "'w channel \<Rightarrow> (jsstring \<Rightarrow> jsstring) \<Rightarrow> 'w \<Rightarrow> jsstring list \<Rightarrow> options \<Rightarrow>
   (FileSystemError + jsstring \<times> FileSystemStats) list cb \<times> 'w \<times> rpc list" where
  "readAllFiles chan strdecode w paths opts =
     (let call = (''readAllFiles'', [VStrs paths, VStr (encodingOf opts)]) in
      case chan (fst call) (snd call) w of
        (Inr (WItems results), w') \<Rightarrow>
          (case those (map (mapResult strdecode) results) of
             Some mappedResults \<Rightarrow> (CbOk mappedResults, w', [call])
           | None \<Rightarrow> (CbNone, w', [call]))
      | (Inr _, w') \<Rightarrow> (CbNone, w', [call])
      | (Inl err, w') \<Rightarrow> (CbErr (mapNodeError err), w', [call]))"

text \<open>
  \<open>writeFile\<close>. The inner function \<open>_finishWrite\<close> has a parameter \<open>created\<close>, which the
  \<open>var created = statObj.created\<close> of its handler hides: the callback is given the flag
  of the reply.
\<close>

definition finishWrite ::
  "'w channel \<Rightarrow> 'w \<Rightarrow> jsstring \<Rightarrow> jsstring \<Rightarrow> jsstring \<Rightarrow> bool \<Rightarrow>
   (FileSystemStats \<times> bool option) cb \<times> 'w \<times> rpc list" where
  "finishWrite chan w path dat encoding created =
     (let call = (''writeFile'', [VStr path, VStr dat, VStr encoding]) in
      case chan (fst call) (snd call) w of
        (Inr (WObject statObj), w') \<Rightarrow>
          (CbOk (mapNodeStats statObj, so_created statObj), w', [call])
      | (Inr _, w') \<Rightarrow> (CbNone, w', [call])
      | (Inl err, w') \<Rightarrow> (CbErr (mapNodeError err), w', [call]))"

definition writeFile ::
  "'w channel \<Rightarrow> 'w \<Rightarrow> jsstring \<Rightarrow> jsstring \<Rightarrow> options \<Rightarrow>
   (FileSystemStats \<times> bool option) cb \<times> 'w \<times> rpc list" where
  "writeFile chan w path dat opts =
     (let encoding = encodingOf opts in
      case stat chan w path of
        (CbErr err, w1, calls) \<Rightarrow>
          if err = NOT_FOUND then
            (case finishWrite chan w1 path dat encoding True of
               (r, w2, calls') \<Rightarrow> (r, w2, calls @ calls'))
          else (CbErr err, w1, calls)
      | (CbNone, w1, calls) \<Rightarrow> (CbNone, w1, calls)
      | (CbOk stats, w1, calls) \<Rightarrow>
          if opt_hash opts \<noteq> None \<and> opt_hash opts \<noteq> Some (fss_hash stats) then
            (CbErr CONTENTS_MODIFIED, w1, calls)
          else
            (case finishWrite chan w1 path dat encoding False of
               (r, w2, calls') \<Rightarrow> (r, w2, calls @ calls')))"

text \<open>
  The watch operations of the facade (\<open>watchPath\<close>, \<open>unwatchPath\<close>, \<open>unwatchAll\<close> of
  \<open>NodeFileSystem.js\<close>; the worker has functions of the same names). Their callback is
  given the reply as it is.
\<close>

definition NodeFileSystem_watchPath ::
  "'w channel \<Rightarrow> 'w \<Rightarrow> jsstring \<Rightarrow> (js_err option + wire) \<times> 'w \<times> rpc list" where
  "NodeFileSystem_watchPath chan w path =
     (case chan ''watchPath'' [VStr path] w of
        (r, w') \<Rightarrow> (r, w', [(''watchPath'', [VStr path])]))"

definition NodeFileSystem_unwatchPath ::
  "'w channel \<Rightarrow> 'w \<Rightarrow> jsstring \<Rightarrow> (js_err option + wire) \<times> 'w \<times> rpc list" where
  "NodeFileSystem_unwatchPath chan w path =
     (case chan ''unwatchPath'' [VStr path] w of
        (r, w') \<Rightarrow> (r, w', [(''unwatchPath'', [VStr path])]))"

definition NodeFileSystem_unwatchAll ::
  "'w channel \<Rightarrow> 'w \<Rightarrow> (js_err option + wire) \<times> 'w \<times> rpc list" where
  "NodeFileSystem_unwatchAll chan w =
     (case chan ''watchPath'' [] w of
        (r, w') \<Rightarrow> (r, w', [(''watchPath'', [])]))"

section \<open>The facade: the request scheduler\<close>

text \<open>
  The variables \<open>_waitingRequests\<close>, \<open>_pendingRequests\<close>, \<open>_pendingRequestCount\<close> and
  \<open>_requestCounter\<close>, and what the timers hold: \<open>startTimers\<close> are the admitted requests
  whose start timer has not fired, \<open>inFlight\<close> the requests that have been started and
  have not completed, \<open>dequeueTimers\<close> the number of pending
  \<open>setTimeout(_dequeueRequest, 0)\<close>, and \<open>direct\<close> the requests run with no queueing.
  A request is named by the number \<open>_requestCounter\<close> gives it.
\<close>

record 'r scheduler =
  waitingRequests :: "'r list"
  pendingRequests :: "(nat \<times> 'r) list"
  pendingRequestCount :: int
  requestCounter :: nat
  startTimers :: "nat list"
  inFlight :: "nat list"
  dequeueTimers :: nat
  direct :: "'r list"







section \<open>The facade: coalescing of watcher changes\<close>

text \<open>
  \<open>_pendingChanges\<close> is a plain object used as a dictionary from paths to flags. Its own
  properties are an association list in insertion order, which is the order of
  \<open>Object.keys\<close>; the list keeps the truthiness of each stored value. \<open>changeTimeout\<close>
  tells whether the batch timer is set, \<open>changeCallback\<close> whether \<open>initWatchers\<close> has
  registered a change callback.
\<close>

record coalescer =
  pendingChanges :: "(jsstring \<times> bool) list"
  changeTimeout :: bool
  changeCallback :: bool

text \<open>
  A plain object inherits the properties of \<open>Object.prototype\<close>: eleven functions, and
  the accessor \<open>__proto__\<close>, which reads as the prototype itself. A read of
  \<open>_pendingChanges[change]\<close> gives the own property when there is one, and otherwise the
  inherited one, which is truthy, or \<open>undefined\<close>.
\<close>

definition objectPrototypeFunctions :: "string list" where
  "objectPrototypeFunctions =
     [''constructor'', ''toString'', ''toLocaleString'', ''valueOf'', ''hasOwnProperty'',
      ''isPrototypeOf'', ''propertyIsEnumerable'', ''__defineGetter__'', ''__defineSetter__'',
      ''__lookupGetter__'', ''__lookupSetter__'']"

definition PROTO :: jsstring where
  "PROTO = js ''__proto__''"

definition inheritedName :: "jsstring \<Rightarrow> bool" where
  "inheritedName key = (key \<in> js ` set objectPrototypeFunctions \<or> key = PROTO)"

definition readPending :: "(jsstring \<times> bool) list \<Rightarrow> jsstring \<Rightarrow> bool" where
  "readPending pending change =
     (case map_of pending change of
        Some v \<Rightarrow> v
      | None \<Rightarrow> inheritedName change)"

text \<open>
  \<open>_enqueueChange\<close>: \<open>_pendingChanges[change] || needsStats\<close> is the value read when that
  is truthy, and \<open>needsStats\<close> otherwise. The assignment stores it as an own property;
  under the name \<open>__proto__\<close> it sets the prototype instead, to the prototype the read
  gave, and no own property appears. The timer is set when none is.
\<close>

definition enqueueChange :: "jsstring \<Rightarrow> bool \<Rightarrow> coalescer \<Rightarrow> coalescer" where
  "enqueueChange change needsStats c =
     c\<lparr>pendingChanges :=
         (if change = PROTO then pendingChanges c
          else AList.update change (readPending (pendingChanges c) change \<or> needsStats)
                 (pendingChanges c)),
       changeTimeout := (if \<not> changeTimeout c then True else changeTimeout c)\<rparr>"

text \<open>
  \<open>_fileWatcherChange\<close>. A notification is the watched path, the kind of event and a
  file name, which may be missing; an empty name is falsy as well.
\<close>

type_synonym notification = "jsstring \<times> string \<times> jsstring option"

definition fileWatcherChange :: "notification \<Rightarrow> coalescer \<Rightarrow> coalescer" where
  "fileWatcherChange n c =
     (case n of (path, event, filename) \<Rightarrow>
        if event = ''change'' then
          (case filename of
             Some f \<Rightarrow> if f \<noteq> [] then enqueueChange (path @ f) True c else c
           | None \<Rightarrow> c)
        else if event = ''rename'' then enqueueChange path False c
        else c)"

text \<open>
  The function the batch timer runs. For a path that needs stats it calls
  \<open>exports.stat\<close>, whose handler logs an error and returns, or gives the stats to the
  change callback; for any other path it calls the change callback with the path alone.
  \<open>statf\<close> is what \<open>exports.stat\<close> calls back with for a path. The result lists, entry by
  entry, the calls of \<open>exports.stat\<close>, the calls of the change callback and the logged
  warnings.
\<close>

datatype flush_out =
    StatCall jsstring
  | Change jsstring "FileSystemStats option"
  | Warning jsstring FileSystemError

definition flushEntry :: "(jsstring \<Rightarrow> FileSystemStats cb) \<Rightarrow> jsstring \<times> bool \<Rightarrow> flush_out list" where
  "flushEntry statf entry =
     (case entry of (path, needsStats) \<Rightarrow>
        if needsStats then
          StatCall path #
            (case statf path of
               CbErr err \<Rightarrow> [Warning path err]
             | CbOk stats \<Rightarrow> [Change path (Some stats)]
             | CbNone \<Rightarrow> [])
        else [Change path None])"

definition flush :: "(jsstring \<Rightarrow> FileSystemStats cb) \<Rightarrow> coalescer \<Rightarrow> flush_out list \<times> coalescer" where
  "flush statf c =
     ((if changeCallback c then concat (map (flushEntry statf) (pendingChanges c)) else []),
      c\<lparr>changeTimeout := False, pendingChanges := []\<rparr>)"

text \<open>A window: the notifications that arrive between two runs of the timer.\<close>

definition window :: "bool \<Rightarrow> notification list \<Rightarrow> coalescer" where
  "window cb ns =
     fold fileWatcherChange ns \<lparr>pendingChanges = [], changeTimeout = False, changeCallback = cb\<rparr>"

section \<open>Runs of the worker\<close>

text \<open>
  The worker starts with an empty watcher map. It is driven by the calls that arrive
  over the channel and by the \<open>error\<close> events of its watchers, whose handler is
  \<open>unwatchPath(path)\<close>.
\<close>

definition initWorker :: "'s \<Rightarrow> 's worker" where
  "initWorker s = \<lparr>fsState = s, watcherMap = [], watcherCount = 0, running = []\<rparr>"

datatype worker_event = Call string "js_val list" | WatcherError js_val

definition workerStep :: "'s platform \<Rightarrow> worker_event \<Rightarrow> 's worker \<Rightarrow> 's worker" where
  "workerStep pf ev w =
     (case ev of
        Call name args \<Rightarrow> snd (dispatch pf name args w)
      | WatcherError path \<Rightarrow> unwatchPath pf path w)"

definition workerRun :: "'s platform \<Rightarrow> worker_event list \<Rightarrow> 's \<Rightarrow> 's worker" where
  "workerRun pf evs s = fold (workerStep pf) evs (initWorker s)"

section \<open>Notions the properties are stated with\<close>




text \<open>
  The bookkeeping of the scheduler: the admitted requests that have not completed are
  those waiting for their start timer and those in flight, each once, and
  \<open>_pendingRequestCount\<close> counts them.
\<close>

definition accounted :: "'r scheduler \<Rightarrow> bool" where
  "accounted st =
     (distinct (startTimers st @ inFlight st) \<and>
      list_all (\<lambda>i. i < requestCounter st) (startTimers st @ inFlight st) \<and>
      pendingRequestCount st = int (length (startTimers st) + length (inFlight st)))"

text \<open>
  The target of a lookup is a symbolic link when \<open>lstat\<close> of the path, its trailing
  separator dropped as \<open>_statHelper\<close> drops it, says so.
\<close>

definition isSymbolicLinkAt :: "'s platform \<Rightarrow> 's \<Rightarrow> jsstring \<Rightarrow> bool" where
  "isSymbolicLinkAt pf s path =
     (case os_lstat pf s (stripSlash path) of
        Inl e \<Rightarrow> False
      | Inr lstats \<Rightarrow> st_isSymbolicLink lstats)"

definition endsWithSeparator :: "jsstring \<Rightarrow> bool" where
  "endsWithSeparator p = (p \<noteq> [] \<and> last p = SLASH)"

text \<open>
  What a notification registers with \<open>_enqueueChange\<close>, if anything: the path and the
  flag. The registrations of a window are those of its notifications, in order.
\<close>

definition registers :: "notification \<Rightarrow> (jsstring \<times> bool) option" where
  "registers n =
     (case n of (path, event, filename) \<Rightarrow>
        if event = ''change'' then
          (case filename of
             Some f \<Rightarrow> if f \<noteq> [] then Some (path @ f, True) else None
           | None \<Rightarrow> None)
        else if event = ''rename'' then Some (path, False)
        else None)"

definition registrations :: "notification list \<Rightarrow> (jsstring \<times> bool) list" where
  "registrations ns = List.map_filter registers ns"

text \<open>
  The path an output of the flush is about, and the outputs of the flush of a window,
  with a change callback registered, that are about one path.
\<close>

fun pathOf :: "flush_out \<Rightarrow> jsstring" where
  "pathOf (StatCall p) = p"
| "pathOf (Change p stats) = p"
| "pathOf (Warning p err) = p"

definition flushed :: "(jsstring \<Rightarrow> FileSystemStats cb) \<Rightarrow> notification list \<Rightarrow> jsstring \<Rightarrow> flush_out list" where
  "flushed statf ns p = filter (\<lambda>out. pathOf out = p) (fst (flush statf (window True ns)))"

text \<open>
  What reading one path comes to for the caller of the facade: the error kind of its
  rejection, or its decoded data and its stats.
\<close>

definition readOutcome ::
  "(jsstring \<Rightarrow> jsstring) \<Rightarrow> js_err + stat_obj \<Rightarrow> FileSystemError + jsstring \<times> FileSystemStats" where
  "readOutcome strdecode r =
     (case r of
        Inl e \<Rightarrow> Inl (mapNodeError (Some e))
      | Inr obj \<Rightarrow> Inr (strdecode (the (so_data obj)), mapNodeStats obj))"

section \<open>A small platform to run the model on\<close>

text \<open>
  A file system of four kinds of nodes under absolute paths, with the least behaviour
  the commands need: enough to run the worker and the facade on concrete inputs. Its
  \<open>f64bits\<close> is the integer itself, not a binary64 pattern.
\<close>

datatype node = FileNode "byte list" int | DirNode int | LinkNode jsstring | LockedNode

type_synonym tree = "(jsstring \<times> node) list"

definition ENOENT :: js_err where
  "ENOENT = OperationalError (Some ''ENOENT'')"

definition tree_lstat :: "tree \<Rightarrow> jsstring \<Rightarrow> js_err + fs_stats" where
  "tree_lstat t p =
     (case map_of t p of
        None \<Rightarrow> Inl ENOENT
      | Some (FileNode bytes m) \<Rightarrow>
          Inr \<lparr>st_isDirectory = False, st_isSymbolicLink = False, st_mtime = m, st_size = length bytes\<rparr>
      | Some (DirNode m) \<Rightarrow>
          Inr \<lparr>st_isDirectory = True, st_isSymbolicLink = False, st_mtime = m, st_size = 0\<rparr>
      | Some (LinkNode target) \<Rightarrow>
          Inr \<lparr>st_isDirectory = False, st_isSymbolicLink = True, st_mtime = 0, st_size = length target\<rparr>
      | Some LockedNode \<Rightarrow> Inl (OperationalError (Some ''EPERM'')))"

definition tree_stat :: "tree \<Rightarrow> jsstring \<Rightarrow> js_err + fs_stats" where
  "tree_stat t p =
     (case map_of t p of
        Some (LinkNode target) \<Rightarrow> tree_lstat t target
      | _ \<Rightarrow> tree_lstat t p)"

definition tree_realpath :: "tree \<Rightarrow> jsstring \<Rightarrow> js_err + jsstring" where
  "tree_realpath t p =
     (case map_of t p of
        None \<Rightarrow> Inl ENOENT
      | Some (LinkNode target) \<Rightarrow> (if map_of t target = None then Inl ENOENT else Inr target)
      | Some _ \<Rightarrow> Inr p)"

definition tree_readFile :: "tree \<Rightarrow> jsstring \<Rightarrow> js_err + byte list" where
  "tree_readFile t p =
     (case map_of t p of
        Some (FileNode bytes m) \<Rightarrow> Inr bytes
      | Some LockedNode \<Rightarrow> Inl (OperationalError (Some ''EPERM''))
      | Some _ \<Rightarrow> Inl (OperationalError (Some ''EISDIR''))
      | None \<Rightarrow> Inl ENOENT)"

definition tree_writeFile :: "tree \<Rightarrow> jsstring \<Rightarrow> jsstring \<Rightarrow> js_val \<Rightarrow> js_err + tree" where
  "tree_writeFile t p dat encoding =
     (case map_of t p of
        Some (DirNode m) \<Rightarrow> Inl (OperationalError (Some ''EISDIR''))
      | Some (LinkNode target) \<Rightarrow> Inl (OperationalError (Some ''EPERM''))
      | Some LockedNode \<Rightarrow> Inl (OperationalError (Some ''EPERM''))
      | _ \<Rightarrow> Inr (AList.update p (FileNode (map ucast dat) 1) t))"

definition treePlatform :: "tree platform" where
  "treePlatform =
     \<lparr>os_lstat = tree_lstat,
      os_stat = tree_stat,
      os_realpath = tree_realpath,
      os_exists = (\<lambda>t p. \<not> isl (tree_stat t p)),
      os_readFile = tree_readFile,
      os_writeFile = tree_writeFile,
      os_readdir = (\<lambda>t p. Inl (OperationalError (Some ''ENOTDIR''))),
      os_mkdir = (\<lambda>t p m. Inl (OperationalError (Some ''EEXIST''))),
      os_rename = (\<lambda>t p q. Inl (OperationalError (Some ''EPERM''))),
      os_remove = (\<lambda>t p. Inl (OperationalError (Some ''EPERM''))),
      os_watch = (\<lambda>t v. case v of VStr p \<Rightarrow> map_of t p \<noteq> None | _ \<Rightarrow> False),
      os_closeThrows = (\<lambda>i. False),
      f64bits = word_of_int,
      isBinaryFile = (\<lambda>bytes n. 0 \<in> set bytes),
      bufToString = (\<lambda>encoding bytes. Inr (map ucast bytes)),
      strencode = id\<rparr>"

definition demoTree :: tree where
  "demoTree =
     [([47, 100], DirNode 5),
      ([47, 100, 47, 102], FileNode [104, 105] 7),
      ([47, 108], LinkNode [47, 100]),
      ([47, 115], LockedNode)]"

definition demoWorker :: "tree worker" where
  "demoWorker = \<lparr>fsState = demoTree, watcherMap = [([47, 100], 0)], watcherCount = 1, running = [0]\<rparr>"

chapter \<open>Properties\<close>

section \<open>The binary stat record\<close>

lemma realpathBytes_pathChars: "realpathBytes rp = 2 * pathChars rp"
  by (simp add: realpathBytes_def pathChars_def split: option.splits)

lemma length_write_bytes [simp]: "length (write_bytes bs off buf) = length buf"
  by (induction bs off buf rule: write_bytes.induct) simp_all

lemma writeUInt16LE_length: "writeUInt16LE v off buf = Inr b \<Longrightarrow> length b = length buf"
  by (auto simp: writeUInt16LE_def split: if_splits option.splits)

lemma writeUInt16LE_other:
  "writeUInt16LE v off buf = Inr b \<Longrightarrow> j < off \<Longrightarrow> b ! j = buf ! j"
  by (auto simp: writeUInt16LE_def split: if_splits option.splits)

lemma writeRealpath_keeps:
  "writeRealpath rp is buf = Inr b \<Longrightarrow>
   length b = length buf \<and> (\<forall>j<18. b ! j = buf ! j)"
proof (induction "is" arbitrary: buf)
  case Nil
  then show ?case by simp
next
  case (Cons i "is")
  from Cons.prems obtain b1 where
    w: "writeUInt16LE (charCodeAt rp i) (2 * i + 18) buf = Inr b1" and
    r: "writeRealpath rp is b1 = Inr b"
    by (auto split: sum.splits)
  from Cons.IH [OF r] writeUInt16LE_length [OF w] writeUInt16LE_other [OF w]
  show ?case by simp
qed

lemma uint16_split:
  assumes "n < 65536"
  shows "unat (word_of_nat n :: byte) + 256 * unat (word_of_int (int n div 256) :: byte) = n"
proof -
  have a: "unat (word_of_nat n :: byte) = n mod 256"
    by (simp add: unat_of_nat)
  have "int n div 256 = int (n div 256)" by (simp add: zdiv_int)
  then have b: "unat (word_of_int (int n div 256) :: byte) = (n div 256) mod 256"
    by (simp add: unat_of_nat)
  from assms have "n div 256 < 256" by simp
  with a b show ?thesis by simp
qed

lemma writeUInt16LE_holds:
  "n < 65536 \<Longrightarrow> off + 1 < length buf \<Longrightarrow>
   \<exists>b. writeUInt16LE (Some (int n)) off buf = Inr b \<and> length b = length buf \<and> holdsUInt16LE b off n"
  by (simp add: writeUInt16LE_def holdsUInt16LE_def uint16_split)

lemma or_low_bit: "m * 2 OR Suc 0 = Suc (2 * m)"
  using or_one_eq [of "m * 2"] by simp

lemma flags_eq: "flags st rp = 2 * realpathBytes rp + fileBit st"
  by (simp add: flags_def fileBit_def push_bit_eq_mult or_low_bit)

lemma writeDoubleLE_ok:
  "off + 7 < length buf \<Longrightarrow> \<exists>b. writeDoubleLE w off buf = Inr b \<and> length b = length buf"
  by (simp add: writeDoubleLE_def)

lemma statsHeader_ok:
  assumes "realpathBytes rp < 32768"
  shows "\<exists>hdr. statsHeader f st rp = Inr hdr \<and> length hdr = 18 + realpathBytes rp \<and>
           holdsUInt16LE hdr 16 (flags st rp)"
proof -
  let ?b0 = "newBuffer (18 + realpathBytes rp)"
  have l0: "length ?b0 = 18 + realpathBytes rp" by (simp add: newBuffer_def)
  obtain b1 where b1: "writeDoubleLE (f (st_mtime st)) 0 ?b0 = Inr b1" "length b1 = length ?b0"
    using writeDoubleLE_ok [of 0 ?b0] l0 by auto
  obtain b2 where b2: "writeDoubleLE (f (int (st_size st))) 8 b1 = Inr b2" "length b2 = length b1"
    using writeDoubleLE_ok [of 8 b1] l0 b1 by auto
  have fb: "flags st rp < 65536" using assms by (simp add: flags_eq fileBit_def)
  obtain b3 where b3: "writeUInt16LE (Some (int (flags st rp))) 16 b2 = Inr b3"
      "length b3 = length b2" "holdsUInt16LE b3 16 (flags st rp)"
    using writeUInt16LE_holds [OF fb, of 16 b2] l0 b1 b2 by auto
  show ?thesis using assms b1 b2 b3 l0 by (simp add: statsHeader_def Let_def)
qed

lemma statsHeader_reject:
  "\<not> realpathBytes rp < 32768 \<Longrightarrow> statsHeader f st rp = Inl AssertionError"
  by (simp add: statsHeader_def Let_def)

lemma holdsUInt16LE_cong:
  "length b = length b' \<Longrightarrow> b ! off = b' ! off \<Longrightarrow> b ! (off + 1) = b' ! (off + 1) \<Longrightarrow>
   holdsUInt16LE b off v = holdsUInt16LE b' off v"
  by (simp add: holdsUInt16LE_def)

lemma getStatsBuffer_returned:
  assumes "getStatsBuffer f st rp = Inr buf"
  shows "length buf = 18 + realpathBytes rp \<and> holdsUInt16LE buf 16 (flags st rp)"
proof -
  from assms obtain hdr where h: "statsHeader f st rp = Inr hdr"
    and w: "writeRealpath (case rp of None \<Rightarrow> [] | Some s \<Rightarrow> s) [0..<realpathBytes rp] hdr = Inr buf"
    by (auto simp: getStatsBuffer_def split: sum.splits)
  have lt: "realpathBytes rp < 32768"
    using h statsHeader_reject [of rp f st] by auto
  from statsHeader_ok [OF lt, of f st] h
  have hh: "length hdr = 18 + realpathBytes rp" "holdsUInt16LE hdr 16 (flags st rp)" by auto
  from writeRealpath_keeps [OF w] have k: "length buf = length hdr" "buf ! 16 = hdr ! 16" "buf ! 17 = hdr ! 17"
    by auto
  show ?thesis using hh k holdsUInt16LE_cong [of buf hdr 16] by simp
qed

lemma getStatsBuffer_reject:
  "\<not> realpathBytes rp < 32768 \<Longrightarrow> getStatsBuffer f st rp = Inl AssertionError"
  by (simp add: getStatsBuffer_def statsHeader_reject)

lemma getStatsBuffer_nopath:
  assumes "pathChars rp = 0"
  shows "\<exists>buf. getStatsBuffer f st rp = Inr buf"
proof -
  have z: "realpathBytes rp = 0" using assms by (simp add: realpathBytes_pathChars)
  then obtain hdr where "statsHeader f st rp = Inr hdr" using statsHeader_ok [of rp f st] by auto
  then show ?thesis using z by (simp add: getStatsBuffer_def)
qed

text \<open>
  The loop of lines 77 to 80 runs \<open>i\<close> up to \<open>realpathBytes\<close>, twice the number of
  characters: for a path of at least one character the write at \<open>i = R\<close> lies past the
  end of the buffer, and the encoder throws.
\<close>

lemma writeRealpath_append:
  "writeRealpath rp (xs @ ys) buf =
     (case writeRealpath rp xs buf of Inl e \<Rightarrow> Inl e | Inr b \<Rightarrow> writeRealpath rp ys b)"
  by (induction xs arbitrary: buf) (auto split: sum.splits)

lemma writeRealpath_inside:
  "\<forall>i\<in>set is. i < length rp \<Longrightarrow> length buf = 18 + 2 * length rp \<Longrightarrow>
   \<exists>b. writeRealpath rp is buf = Inr b \<and> length b = length buf"
proof (induction "is" arbitrary: buf)
  case Nil
  then show ?case by simp
next
  case (Cons i "is")
  then have i: "i < length rp" by simp
  have "uint (rp ! i) < 65536" using uint_lt2p [of "rp ! i"] by simp
  then obtain b1 where b1: "writeUInt16LE (charCodeAt rp i) (2 * i + 18) buf = Inr b1"
    using i Cons.prems(2) by (auto simp: writeUInt16LE_def charCodeAt_def)
  then have "length b1 = 18 + 2 * length rp" using writeUInt16LE_length Cons.prems(2) by metis
  from Cons.IH [OF _ this] Cons.prems(1) b1 show ?case by (auto simp: \<open>length b1 = 18 + 2 * length rp\<close> Cons.prems(2))
qed

lemma getStatsBuffer_overrun:
  assumes "0 < pathChars rp" "pathChars rp < 16384"
  shows "getStatsBuffer f st rp = Inl OutOfBounds"
proof -
  from assms obtain s where s: "rp = Some s" "0 < length s" "length s < 16384"
    by (auto simp: pathChars_def split: option.splits)
  then have rb: "realpathBytes rp = 2 * length s" by (simp add: realpathBytes_def)
  then obtain hdr where h: "statsHeader f st rp = Inr hdr" "length hdr = 18 + 2 * length s"
    using statsHeader_ok [of rp f st] s by auto
  have sp: "[0..<2 * length s] = [0..<length s] @ length s # [Suc (length s)..<2 * length s]"
    using s(2) by (metis (no_types) Suc_1 less_add_same_cancel2 mult_2 upt_add_eq_append upt_conv_Cons zero_le)
  obtain b where b: "writeRealpath s [0..<length s] hdr = Inr b" "length b = length hdr"
    using writeRealpath_inside [of "[0..<length s]" s hdr] h by auto
  have "writeUInt16LE (charCodeAt s (length s)) (2 * length s + 18) b = Inl OutOfBounds"
    using b h by (simp add: writeUInt16LE_def)
  then show ?thesis using h b s rb by (simp add: getStatsBuffer_def sp writeRealpath_append)
qed


text \<open>
  Claim C1, as the code has it. With \<open>R\<close> the number of characters of the resolved path
  (0 when there is none): the encoder rejects the record, by its assertion, whenever
  \<open>R \<ge> 2^14\<close>, since the 15-bit field of the flags holds the length of the path in
  bytes, \<open>2 * R\<close>; it accepts a record with no resolved path; whenever \<open>R < 2^14\<close> the
  assertion passes and the fixed part is written into a buffer of \<open>18 + 2 * R\<close> bytes
  whose bytes 16 and 17 hold the little-endian 16-bit value \<open>((2 * R) << 1) | fileBit\<close>;
  and every buffer the encoder returns has that length and those two bytes.
\<close>

theorem getStatsBuffer_layout:
  "(16384 \<le> pathChars rp \<longrightarrow> getStatsBuffer f st rp = Inl AssertionError) \<and>
   (pathChars rp = 0 \<longrightarrow> (\<exists>buf. getStatsBuffer f st rp = Inr buf)) \<and>
   (pathChars rp < 16384 \<longrightarrow>
      (\<exists>hdr. statsHeader f st rp = Inr hdr \<and> length hdr = 18 + 2 * pathChars rp \<and>
         holdsUInt16LE hdr 16 (push_bit 1 (2 * pathChars rp) OR fileBit st))) \<and>
   (\<forall>buf. getStatsBuffer f st rp = Inr buf \<longrightarrow>
      length buf = 18 + 2 * pathChars rp \<and>
      holdsUInt16LE buf 16 (push_bit 1 (2 * pathChars rp) OR fileBit st))"
proof -
  have fl: "flags st rp = push_bit 1 (2 * pathChars rp) OR fileBit st"
    by (simp add: flags_def realpathBytes_pathChars)
  have a: "16384 \<le> pathChars rp \<longrightarrow> getStatsBuffer f st rp = Inl AssertionError"
    using getStatsBuffer_reject [of rp f st] by (simp add: realpathBytes_pathChars)
  have b: "pathChars rp = 0 \<longrightarrow> (\<exists>buf. getStatsBuffer f st rp = Inr buf)"
    using getStatsBuffer_nopath [of rp f st] by simp
  have c: "pathChars rp < 16384 \<longrightarrow>
      (\<exists>hdr. statsHeader f st rp = Inr hdr \<and> length hdr = 18 + 2 * pathChars rp \<and>
         holdsUInt16LE hdr 16 (push_bit 1 (2 * pathChars rp) OR fileBit st))"
    using statsHeader_ok [of rp f st] by (simp add: realpathBytes_pathChars fl)
  have d: "\<forall>buf. getStatsBuffer f st rp = Inr buf \<longrightarrow>
      length buf = 18 + 2 * pathChars rp \<and>
      holdsUInt16LE buf 16 (push_bit 1 (2 * pathChars rp) OR fileBit st)"
    using getStatsBuffer_returned [of f st rp] by (simp add: realpathBytes_pathChars fl)
  from a b c d show ?thesis by blast
qed

theorem getStatsBuffer_layout_witness:
  "getStatsBuffer word_of_int
     \<lparr>st_isDirectory = False, st_isSymbolicLink = False, st_mtime = 258, st_size = 3\<rparr>
     (Some (replicate 16384 97)) = Inl AssertionError \<and>
   (\<exists>buf. getStatsBuffer word_of_int
      \<lparr>st_isDirectory = False, st_isSymbolicLink = False, st_mtime = 258, st_size = 3\<rparr> None
        = Inr buf \<and> length buf = 18 \<and> holdsUInt16LE buf 16 1) \<and>
   (\<exists>hdr. statsHeader word_of_int
      \<lparr>st_isDirectory = False, st_isSymbolicLink = False, st_mtime = 258, st_size = 3\<rparr>
      (Some [47, 100]) = Inr hdr \<and> length hdr = 22 \<and> holdsUInt16LE hdr 16 9)"
proof -
  let ?st = "\<lparr>st_isDirectory = False, st_isSymbolicLink = False, st_mtime = 258, st_size = 3\<rparr>"
  have p1: "pathChars (Some (replicate 16384 (97 :: 16 word))) = 16384"
    by (simp add: pathChars_def)
  have p2: "pathChars None = 0"
    by (simp add: pathChars_def)
  have p3: "pathChars (Some [47, 100 :: 16 word]) = 2"
    by (simp add: pathChars_def)
  have f: "fileBit ?st = 1"
    by (simp add: fileBit_def)
  have v1: "push_bit 1 (2 * (0::nat)) OR (1::nat) = 1"
    by simp
  have v2: "push_bit 1 (2 * (2::nat)) OR (1::nat) = 9"
    by (simp add: or_one_eq)
  from getStatsBuffer_layout [of "Some (replicate 16384 97)" word_of_int ?st] p1
  have a: "getStatsBuffer word_of_int ?st (Some (replicate 16384 97)) = Inl AssertionError"
    by simp
  from getStatsBuffer_layout [of None word_of_int ?st] p2 f v1
  have b: "\<exists>buf. getStatsBuffer word_of_int ?st None = Inr buf \<and> length buf = 18 \<and>
             holdsUInt16LE buf 16 1"
    by auto
  from getStatsBuffer_layout [of "Some [47, 100]" word_of_int ?st] p3 f v2
  have c: "\<exists>hdr. statsHeader word_of_int ?st (Some [47, 100]) = Inr hdr \<and> length hdr = 22 \<and>
             holdsUInt16LE hdr 16 9"
    by auto
  from a b c show ?thesis by blast
qed

text \<open>
  A resolved path of 16384 characters has fewer than \<open>2^15\<close> characters and the encoder
  rejects it. And for a file with a resolved path of two characters the flags written
  at bytes 16 and 17 are \<open>(4 << 1) | 1 = 9\<close>, not \<open>(2 << 1) | 1 = 5\<close>.
\<close>

theorem getStatsBuffer_counterexample:
  "pathChars (Some (replicate 16384 97)) < 2 ^ 15 \<and>
   getStatsBuffer word_of_int
     \<lparr>st_isDirectory = False, st_isSymbolicLink = False, st_mtime = 258, st_size = 3\<rparr>
     (Some (replicate 16384 97)) = Inl AssertionError \<and>
   (case statsHeader word_of_int
      \<lparr>st_isDirectory = False, st_isSymbolicLink = False, st_mtime = 258, st_size = 3\<rparr>
      (Some [47, 100]) of
      Inl e \<Rightarrow> False
    | Inr hdr \<Rightarrow> holdsUInt16LE hdr 16 9 \<and> \<not> holdsUInt16LE hdr 16 5)"
proof -
  let ?st = "\<lparr>st_isDirectory = False, st_isSymbolicLink = False, st_mtime = 258, st_size = 3\<rparr>"
  have a: "pathChars (Some (replicate 16384 (97 :: 16 word))) < 2 ^ 15"
    by (simp add: pathChars_def)
  have b: "getStatsBuffer word_of_int ?st (Some (replicate 16384 97)) = Inl AssertionError"
    by (simp add: getStatsBuffer_def statsHeader_def realpathBytes_def Let_def)
  have "realpathBytes (Some [47, 100 :: 16 word]) < 32768"
    by (simp add: realpathBytes_def)
  from statsHeader_ok [OF this, of word_of_int ?st]
  obtain hdr where h: "statsHeader word_of_int ?st (Some [47, 100]) = Inr hdr"
    and f: "holdsUInt16LE hdr 16 (flags ?st (Some [47, 100]))"
    by blast
  have "flags ?st (Some [47, 100 :: 16 word]) = 9"
    by (simp add: flags_eq realpathBytes_def fileBit_def)
  with f have "holdsUInt16LE hdr 16 9 \<and> \<not> holdsUInt16LE hdr 16 5"
    by (auto simp: holdsUInt16LE_def split: option.splits)
  with h have c: "case statsHeader word_of_int ?st (Some [47, 100]) of
      Inl e \<Rightarrow> False
    | Inr hdr \<Rightarrow> holdsUInt16LE hdr 16 9 \<and> \<not> holdsUInt16LE hdr 16 5"
    by simp
  from a b c show ?thesis by blast
qed

lemmas tree_defs = treePlatform_def tree_lstat_def tree_stat_def tree_realpath_def
  tree_readFile_def tree_writeFile_def ENOENT_def demoTree_def demoWorker_def

section \<open>The request scheduler\<close>








lemma accounted_waitingRequests [simp]:
  "accounted (st\<lparr>waitingRequests := x\<rparr>) = accounted st"
  by (simp add: accounted_def)

lemma accounted_direct [simp]:
  "accounted (st\<lparr>direct := x\<rparr>) = accounted st"
  by (simp add: accounted_def)

lemma accounted_dequeueTimers [simp]:
  "accounted (st\<lparr>dequeueTimers := x\<rparr>) = accounted st"
  by (simp add: accounted_def)













section \<open>The command \<open>exists\<close>\<close>

lemma dispatch_exists_is_stat:
  "dispatch pf ''exists'' args w = dispatch pf ''stat'' args w"
  by (simp add: dispatch_def registeredCommands_def)

lemma dispatch_stat_shape:
  "dispatch pf ''stat'' [VStr path] w =
     (case statObject pf (fsState w) path of
        Inl e \<Rightarrow> (Inl (Some e), w)
      | Inr obj \<Rightarrow> (Inr (WObject obj), w))"
  by (simp add: dispatch_def registeredCommands_def applyHandler_def arg_def pureReply_def
     statCmd_def statHelper_def wireOf_def split: sum.splits)

lemma exists_never_boolean:
  "fst (exists (dispatch pf) w path) \<noteq> CbOk (WBool b)"
  by (simp add: exists_def dispatch_exists_is_stat dispatch_stat_shape split: sum.splits)

text \<open>
  Claim C3, on the code: the command \<open>exists\<close> is registered with \<open>statCmd\<close>. For a file
  that exists the facade's callback is given a stats object where \<open>existsCmd\<close> answers
  \<open>true\<close>, and for a path that does not exist it is given the error \<open>NOT_FOUND\<close> where
  \<open>existsCmd\<close> answers \<open>false\<close>.
\<close>

theorem exists_resolves_with_stats:
  "map_of registeredCommands ''exists'' = Some Fn_statCmd \<and>
   fst (exists (dispatch treePlatform) demoWorker [47, 100, 47, 102]) =
     CbOk (WObject \<lparr>so_isFile = True, so_mtime = 7, so_size = 2, so_realpath = None,
                    so_data = None, so_created = None, so_name = None\<rparr>) \<and>
   existsCmd treePlatform demoTree [47, 100, 47, 102] = True \<and>
   fst (exists (dispatch treePlatform) demoWorker [47, 120]) = CbErr NOT_FOUND \<and>
   existsCmd treePlatform demoTree [47, 120] = False"
  by (simp add: exists_def dispatch_def registeredCommands_def applyHandler_def arg_def
      pureReply_def statCmd_def statHelper_def statObject_def statTarget_def stripSlash_def
      SLASH_def getStatsObject_def wireOf_def existsCmd_def mapNodeError_def tree_defs)

section \<open>The facade's \<open>unwatchAll\<close>\<close>

lemma NodeFileSystem_unwatchAll_call:
  "snd (snd (NodeFileSystem_unwatchAll chan w)) = [(''watchPath'', [])]"
  by (simp add: NodeFileSystem_unwatchAll_def split: prod.splits)

lemma watchPath_keeps_entries:
  "map_of (watcherMap w) k = Some i \<Longrightarrow> map_of (watcherMap (watchPath pf v w)) k = Some i"
proof -
  assume a: "map_of (watcherMap w) k = Some i"
  show ?thesis
  proof (cases "propertyKey v = k")
    case True
    with a have "propertyKey v \<in> fst ` set (watcherMap w)"
      by (metis domI dom_map_of_conv_image_fst)
    with a show ?thesis by (simp add: watchPath_def)
  next
    case False
    with a show ?thesis by (simp add: watchPath_def update_conv')
  qed
qed

lemma watchPath_keeps_running:
  "set (running w) \<subseteq> set (running (watchPath pf v w))"
  by (auto simp: watchPath_def)

lemma NodeFileSystem_unwatchAll_keeps:
  "map_of (watcherMap w) k = Some i \<Longrightarrow>
   map_of (watcherMap (fst (snd (NodeFileSystem_unwatchAll (dispatch pf) w)))) k = Some i"
  by (simp add: NodeFileSystem_unwatchAll_def dispatch_def registeredCommands_def applyHandler_def
      watchPath_keeps_entries)

text \<open>
  Claim C4, on the code: the facade's \<open>unwatchAll\<close> calls the command \<open>watchPath\<close> with
  no argument. The worker's watcher stays in the map and keeps running, where the
  worker's own \<open>unwatchAll\<close> would have stopped and removed it.
\<close>

theorem unwatchAll_invokes_watchPath:
  "NodeFileSystem_unwatchAll (dispatch treePlatform) demoWorker =
     (Inr WUndefined, demoWorker, [(''watchPath'', [])]) \<and>
   watcherMap demoWorker = [([47, 100], 0)] \<and>
   running demoWorker = [0] \<and>
   watcherMap (unwatchAll treePlatform demoWorker) = [] \<and>
   running (unwatchAll treePlatform demoWorker) = []"
  by (simp add: NodeFileSystem_unwatchAll_def dispatch_def registeredCommands_def
      applyHandler_def arg_def watchPath_def unwatchAll_def unwatchPath_def propertyKey_def
      js_def tree_defs)

section \<open>The resolved path of a stat record\<close>

lemma statTarget_realpath:
  assumes "statTarget pf s path = Inr (stats, realpath)"
  shows "(realpath \<noteq> None) = isSymbolicLinkAt pf s path"
    and "\<And>q. realpath = Some q \<Longrightarrow> st_isDirectory stats \<Longrightarrow> endsWithSeparator q"
    and "\<And>q. realpath = Some q \<Longrightarrow> \<not> st_isDirectory stats \<Longrightarrow>
           os_realpath pf s (stripSlash path) = Inr q"
  using assms
  by (auto simp: statTarget_def isSymbolicLinkAt_def endsWithSeparator_def Let_def
      realpathAtRealpathMinus1IsSlash_def split: sum.splits if_splits)

lemma statObject_realpath:
  assumes ne: "\<And>q. os_realpath pf s (stripSlash path) = Inr q \<Longrightarrow> q \<noteq> []"
    and ok: "statObject pf s path = Inr obj"
  shows "(so_realpath obj \<noteq> None) = isSymbolicLinkAt pf s path"
    and "\<And>q. so_realpath obj = Some q \<Longrightarrow> \<not> so_isFile obj \<Longrightarrow> endsWithSeparator q"
proof -
  from ok obtain stats realpath where t: "statTarget pf s path = Inr (stats, realpath)"
    and o: "obj = getStatsObject stats realpath"
    by (auto simp: statObject_def split: sum.splits)
  note r = statTarget_realpath [OF t]
  show "(so_realpath obj \<noteq> None) = isSymbolicLinkAt pf s path"
  proof (cases realpath)
    case None
    with r(1) o show ?thesis by (simp add: getStatsObject_def)
  next
    case (Some q)
    have "q \<noteq> []"
    proof (cases "st_isDirectory stats")
      case True
      with r(2) Some show ?thesis by (auto simp: endsWithSeparator_def)
    next
      case False
      with r(3) Some ne show ?thesis by blast
    qed
    with Some r(1) o show ?thesis by (simp add: getStatsObject_def)
  qed
  show "\<And>q. so_realpath obj = Some q \<Longrightarrow> \<not> so_isFile obj \<Longrightarrow> endsWithSeparator q"
    using r(2) o by (auto simp: getStatsObject_def split: option.splits if_splits)
qed

text \<open>
  Claim C8. On a platform whose \<open>realpath\<close> never answers the empty string: the record a
  stat operation gives its caller has a resolved path if and only if the target of the
  lookup was a symbolic link, and when the record is one of a directory the resolved
  path ends with a separator.
\<close>

theorem stat_resolvedPath:
  assumes "\<And>q. os_realpath pf (fsState w) (stripSlash path) = Inr q \<Longrightarrow> q \<noteq> []"
    and "fst (stat (dispatch pf) w path) = CbOk r"
  shows "(fss_realPath r \<noteq> None) = isSymbolicLinkAt pf (fsState w) path \<and>
         (\<forall>q. fss_realPath r = Some q \<and> \<not> fss_isFile r \<longrightarrow> endsWithSeparator q)"
proof -
  from assms(2) obtain obj where o: "statObject pf (fsState w) path = Inr obj"
    and r: "r = mapNodeStats obj"
    by (auto simp: stat_def dispatch_stat_shape split: sum.splits)
  from statObject_realpath [OF assms(1) o] r show ?thesis
    by (simp add: mapNodeStats_def)
qed

theorem stat_resolvedPath_witness:
  "fst (stat (dispatch treePlatform) demoWorker [47, 108]) =
     CbOk \<lparr>fss_isFile = False, fss_mtime = 5, fss_size = 0, fss_hash = 5,
           fss_realPath = Some [47, 100, 47]\<rparr> \<and>
   isSymbolicLinkAt treePlatform (fsState demoWorker) [47, 108] \<and>
   endsWithSeparator [47, 100, 47]"
proof -
  let ?r = "\<lparr>fss_isFile = False, fss_mtime = 5, fss_size = 0, fss_hash = 5,
             fss_realPath = Some [47, 100, 47 :: 16 word]\<rparr>"
  have a1: "\<And>q. os_realpath treePlatform (fsState demoWorker) (stripSlash [47, 108]) = Inr q
              \<Longrightarrow> q \<noteq> []"
    by (simp add: stripSlash_def SLASH_def tree_defs)
  have a2: "fst (stat (dispatch treePlatform) demoWorker [47, 108]) = CbOk ?r"
    by (simp add: stat_def dispatch_stat_shape statObject_def statTarget_def stripSlash_def
        SLASH_def getStatsObject_def mapNodeStats_def realpathAtRealpathMinus1IsSlash_def
        tree_defs)
  from stat_resolvedPath [OF a1 a2] a2 show ?thesis by simp
qed

section \<open>The worker's \<open>watchPath\<close>\<close>

lemma watchPath_noop:
  "propertyKey path \<in> fst ` set (watcherMap w) \<Longrightarrow> watchPath pf path w = w"
  by (simp add: watchPath_def)

lemma key_in_update: "k \<in> fst ` set (AList.update k v al)"
  by (induction al) auto

lemma watchPath_twice:
  "watchPath pf path (watchPath pf path w) = watchPath pf path w"
proof (cases "propertyKey path \<in> fst ` set (watcherMap w)")
  case True
  then show ?thesis by (simp add: watchPath_def)
next
  case False
  show ?thesis
  proof (cases "os_watch pf (fsState w) path")
    case True
    with False show ?thesis by (simp add: watchPath_def key_in_update)
  next
    case no: False
    with False show ?thesis by (simp add: watchPath_def)
  qed
qed

lemma distinct_watchPath:
  "distinct (map fst (watcherMap w)) \<Longrightarrow> distinct (map fst (watcherMap (watchPath pf v w)))"
  by (simp add: watchPath_def distinct_update)

lemma distinct_unwatchPath:
  "distinct (map fst (watcherMap w)) \<Longrightarrow> distinct (map fst (watcherMap (unwatchPath pf v w)))"
  by (simp add: unwatchPath_def distinct_delete split: option.splits)

lemma distinct_fold_unwatchPath:
  "distinct (map fst (watcherMap w)) \<Longrightarrow>
   distinct (map fst (watcherMap (fold (\<lambda>path. unwatchPath pf (VStr path)) ps w)))"
  by (induction ps arbitrary: w) (simp_all add: distinct_unwatchPath)

lemma distinct_unwatchAll:
  "distinct (map fst (watcherMap w)) \<Longrightarrow> distinct (map fst (watcherMap (unwatchAll pf w)))"
  by (simp add: unwatchAll_def distinct_fold_unwatchPath)

lemma watcherMap_stateReply [simp]: "watcherMap (snd (stateReply w r)) = watcherMap w"
  by (simp add: stateReply_def)

lemma watcherMap_pureReply [simp]: "watcherMap (snd (pureReply w r)) = watcherMap w"
  by (simp add: pureReply_def)

lemma watcherMap_badArgument [simp]: "watcherMap (snd (badArgument w)) = watcherMap w"
  by (simp add: badArgument_def)

lemma distinct_applyHandler:
  "distinct (map fst (watcherMap w)) \<Longrightarrow>
   distinct (map fst (watcherMap (snd (applyHandler pf h args w))))"
  by (cases h)
     (simp_all add: applyHandler_def distinct_watchPath distinct_unwatchPath distinct_unwatchAll
        split: js_val.splits prod.splits)

lemma distinct_workerStep:
  "distinct (map fst (watcherMap w)) \<Longrightarrow> distinct (map fst (watcherMap (workerStep pf ev w)))"
  by (cases ev)
     (simp_all add: workerStep_def dispatch_def distinct_applyHandler distinct_unwatchPath
        split: option.splits)

lemma distinct_fold_workerStep:
  "distinct (map fst (watcherMap w)) \<Longrightarrow>
   distinct (map fst (watcherMap (fold (workerStep pf) evs w)))"
  by (induction evs arbitrary: w) (simp_all add: distinct_workerStep)

text \<open>
  Claim C10. \<open>watchPath\<close> for a path that has a watcher in the map changes nothing: no
  watcher is created. Calling it twice is calling it once. And whatever calls and
  watcher errors the worker has seen since it started, no path has two entries in the
  watcher map.
\<close>

theorem watchPath_idempotent:
  "(propertyKey path \<in> fst ` set (watcherMap w) \<longrightarrow> watchPath pf path w = w) \<and>
   watchPath pf path (watchPath pf path w) = watchPath pf path w \<and>
   distinct (map fst (watcherMap (workerRun pf evs s)))"
  by (simp add: watchPath_noop watchPath_twice workerRun_def initWorker_def distinct_fold_workerStep)

theorem watchPath_idempotent_witness:
  "propertyKey (VStr [47, 100]) \<in> fst ` set (watcherMap demoWorker) \<and>
   watchPath treePlatform (VStr [47, 100]) demoWorker = demoWorker \<and>
   watcherCount (watchPath treePlatform (VStr [47, 100]) demoWorker) = 1"
proof -
  have a: "propertyKey (VStr [47, 100]) \<in> fst ` set (watcherMap demoWorker)"
    by (simp add: propertyKey_def demoWorker_def)
  from watchPath_idempotent [of "VStr [47, 100]" demoWorker treePlatform "[]" demoTree] a
  have b: "watchPath treePlatform (VStr [47, 100]) demoWorker = demoWorker"
    by simp
  have "watcherCount demoWorker = 1"
    by (simp add: demoWorker_def)
  with a b show ?thesis by simp
qed

section \<open>Reading many files\<close>

lemma dispatch_readFile:
  "dispatch pf ''readFile'' [VStr path, VStr enc] w =
     (case readFileObject pf (fsState w) path (VStr enc) of
        Inl e \<Rightarrow> (Inl (Some e), w)
      | Inr obj \<Rightarrow> (Inr (WObject obj), w))"
  by (simp add: dispatch_def registeredCommands_def applyHandler_def arg_def pureReply_def
     readFileCmd_def readFileHelper_def wireOf_def split: sum.splits)

lemma dispatch_readAllFiles:
  "dispatch pf ''readAllFiles'' [VStrs paths, VStr enc] w =
     (Inr (WItems (map (\<lambda>path. textEntry (readFileObject pf (fsState w) path (VStr enc))) paths)), w)"
  by (simp add: dispatch_def registeredCommands_def applyHandler_def arg_def pureReply_def
     readAllFilesCmd_def)

lemma readFileObject_data:
  "readFileObject pf s path enc = Inr obj \<Longrightarrow> so_data obj \<noteq> None"
  by (auto simp: readFileObject_def split: sum.splits if_splits)

lemma mapResult_textEntry:
  "mapResult sd (textEntry (readFileObject pf s path enc)) =
     Some (readOutcome sd (readFileObject pf s path enc))"
  using readFileObject_data [of pf s path enc]
  by (auto simp: mapResult_def textEntry_def readOutcome_def split: sum.splits)

lemma those_map_Some: "those (map (\<lambda>x. Some (f x)) xs) = Some (map f xs)"
  by (induction xs) simp_all

lemma readFile_outcome:
  "fst (readFile (dispatch pf) sd w path opts) =
     case_sum CbErr CbOk (readOutcome sd (readFileObject pf (fsState w) path (VStr (encodingOf opts))))"
  using readFileObject_data [of pf "fsState w" path "VStr (encodingOf opts)"]
  by (auto simp: readFile_def dispatch_readFile readOutcome_def Let_def split: sum.splits)

lemma readAllFiles_outcome:
  "readAllFiles (dispatch pf) sd w paths opts =
     (CbOk (map (\<lambda>path. readOutcome sd (readFileObject pf (fsState w) path (VStr (encodingOf opts)))) paths),
      w, [(''readAllFiles'', [VStrs paths, VStr (encodingOf opts)])])"
  by (simp add: readAllFiles_def dispatch_readAllFiles Let_def comp_def mapResult_textEntry
      those_map_Some)

text \<open>
  Claim C6. \<open>readAllFiles\<close> issues one call and gives its callback one result for every
  path of the list, in the order of the list; the result at a path is what \<open>readFile\<close>
  gives for that path alone: the error kind of that path, or its data and stats. The
  batch itself succeeds whatever the paths do.
\<close>

theorem readAllFiles_per_path:
  "\<exists>rs. readAllFiles (dispatch pf) strdecode w paths opts =
          (CbOk rs, w, [(''readAllFiles'', [VStrs paths, VStr (encodingOf opts)])]) \<and>
        map (case_sum CbErr CbOk) rs =
          map (\<lambda>path. fst (readFile (dispatch pf) strdecode w path opts)) paths"
  by (simp add: readAllFiles_outcome readFile_outcome comp_def)

theorem readAllFiles_per_path_witness:
  "\<exists>rs. readAllFiles (dispatch treePlatform) id demoWorker
          [[47, 100, 47, 102], [47, 120]] \<lparr>opt_encoding = None, opt_hash = None\<rparr> =
          (CbOk rs, demoWorker,
           [(''readAllFiles'', [VStrs [[47, 100, 47, 102], [47, 120]], VStr (js ''utf8'')])]) \<and>
        map (case_sum CbErr CbOk) rs = [CbOk ([104, 105], \<lparr>fss_isFile = True, fss_mtime = 7, fss_size = 2, fss_hash = 7, fss_realPath = None\<rparr>), CbErr NOT_FOUND]"
proof -
  let ?o = "\<lparr>opt_encoding = None, opt_hash = None\<rparr>"
  have e: "encodingOf ?o = js ''utf8''"
    by (simp add: encodingOf_def)
  have a: "fst (readFile (dispatch treePlatform) id demoWorker [47, 100, 47, 102] ?o) =
             CbOk ([104, 105], \<lparr>fss_isFile = True, fss_mtime = 7, fss_size = 2, fss_hash = 7, fss_realPath = None\<rparr>)"
    by (simp add: readFile_outcome readOutcome_def readFileObject_def statObject_def
        statTarget_def stripSlash_def SLASH_def getStatsObject_def mapNodeStats_def tree_defs)
  have b: "fst (readFile (dispatch treePlatform) id demoWorker [47, 120] ?o) = CbErr NOT_FOUND"
    by (simp add: readFile_outcome readOutcome_def readFileObject_def mapNodeError_def tree_defs)
  from readAllFiles_per_path [of treePlatform id demoWorker "[[47, 100, 47, 102], [47, 120]]" ?o]
  show ?thesis by (simp add: a b e)
qed

section \<open>Writing with a hash\<close>

lemma stat_dispatch:
  "stat (dispatch pf) w path =
     (case statObject pf (fsState w) path of
        Inl e \<Rightarrow> CbErr (mapNodeError (Some e))
      | Inr obj \<Rightarrow> CbOk (mapNodeStats obj), w, [(''stat'', [VStr path])])"
  by (simp add: stat_def dispatch_stat_shape split: sum.splits)

lemma writeFile_stale:
  assumes "chan ''stat'' [VStr path] w = (Inr (WObject statObj), w1)"
    and "opt_hash opts = Some h" and "h \<noteq> so_mtime statObj"
  shows "writeFile chan w path dat opts = (CbErr CONTENTS_MODIFIED, w1, [(''stat'', [VStr path])])"
  using assms by (simp add: writeFile_def stat_def mapNodeStats_def Let_def)

lemma writeFile_stat_failed:
  assumes "chan ''stat'' [VStr path] w = (Inl e, w1)" and "mapNodeError e \<noteq> NOT_FOUND"
  shows "writeFile chan w path dat opts = (CbErr (mapNodeError e), w1, [(''stat'', [VStr path])])"
  using assms by (simp add: writeFile_def stat_def Let_def)

lemma writeFile_not_found:
  assumes "chan ''stat'' [VStr path] w = (Inl e, w1)" and "mapNodeError e = NOT_FOUND"
  shows "writeFile chan w path dat opts =
           (fst (finishWrite chan w1 path dat (encodingOf opts) True),
            fst (snd (finishWrite chan w1 path dat (encodingOf opts) True)),
            (''stat'', [VStr path]) # snd (snd (finishWrite chan w1 path dat (encodingOf opts) True)))"
  using assms by (simp add: writeFile_def stat_def Let_def split: prod.splits)

lemma dispatch_writeFile:
  "dispatch pf ''writeFile'' [VStr path, VStr dat, VStr enc] w =
     stateReply w (writeFileCmd pf (fsState w) path dat (VStr enc))"
  by (simp add: dispatch_def registeredCommands_def applyHandler_def arg_def)

lemma finishWrite_calls:
  "snd (snd (finishWrite chan w path dat enc created)) = [(''writeFile'', [VStr path, VStr dat, VStr enc])]"
  by (simp add: finishWrite_def Let_def split: prod.splits sum.splits wire.splits)

lemma finishWrite_state:
  "fst (snd (finishWrite chan w path dat enc created)) =
     snd (chan ''writeFile'' [VStr path, VStr dat, VStr enc] w)"
  by (simp add: finishWrite_def Let_def split: prod.splits sum.splits wire.splits)

lemma finishWrite_created:
  assumes "\<not> os_exists pf (fsState w) path"
  shows "(\<exists>e. fst (finishWrite (dispatch pf) w path dat enc created) = CbErr e) \<or>
         (\<exists>stats. fst (finishWrite (dispatch pf) w path dat enc created) = CbOk (stats, Some True))"
  using assms
  by (auto simp: finishWrite_def dispatch_writeFile stateReply_def writeFileCmd_def existsCmd_def
      Let_def split: sum.splits)

lemma finishWrite_dispatch:
  "finishWrite (dispatch pf) w path dat enc created =
     (case os_writeFile pf (fsState w) path dat (VStr enc) of
        Inl e \<Rightarrow> (CbErr (mapNodeError (Some e)), w, [(''writeFile'', [VStr path, VStr dat, VStr enc])])
      | Inr s' \<Rightarrow>
          (case statObject pf s' path of
             Inl e \<Rightarrow> CbErr (mapNodeError (Some e))
           | Inr obj \<Rightarrow> CbOk (mapNodeStats obj, Some (\<not> os_exists pf (fsState w) path)),
           w\<lparr>fsState := s'\<rparr>,
           [(''writeFile'', [VStr path, VStr dat, VStr enc])]))"
  by (simp add: finishWrite_def dispatch_writeFile stateReply_def writeFileCmd_def existsCmd_def
      Let_def mapNodeStats_def split: sum.splits)

text \<open>
  Claim C5, with the worker at the far end of the channel. When the stat succeeds and
  the options carry a hash that is not the hash of the stats, the callback is given
  \<open>CONTENTS_MODIFIED\<close>, the only call issued is the stat and the worker is as it was.
  When the stat fails with \<open>NOT_FOUND\<close>, the write is issued after the stat and the
  worker hands it to the platform: when the platform's write fails, the callback is
  given the error kind of that failure and the worker is as it was; when it succeeds,
  the file system of the worker is the one the write produced and the callback is given
  the stats of the written path with \<open>created\<close> true. When the stat fails with another
  error, that error is given to the callback, the only call issued is the stat and the
  worker is as it was. The flag \<open>created\<close> is computed by the worker from \<open>fs.exists\<close>;
  the platform is taken to be coherent for the path: a path that \<open>fs.exists\<close> reports can
  be stat'ed.
\<close>

theorem writeFile_optimistic:
  assumes coherent: "os_exists pf (fsState w) path \<Longrightarrow> \<not> isl (statObject pf (fsState w) path)"
  shows
   "(\<forall>stats h. fst (stat (dispatch pf) w path) = CbOk stats \<and> opt_hash opts = Some h \<and>
        h \<noteq> fss_hash stats \<longrightarrow>
        writeFile (dispatch pf) w path dat opts =
          (CbErr CONTENTS_MODIFIED, w, [(''stat'', [VStr path])])) \<and>
    (fst (stat (dispatch pf) w path) = CbErr NOT_FOUND \<longrightarrow>
        writeFile (dispatch pf) w path dat opts =
          (case os_writeFile pf (fsState w) path dat (VStr (encodingOf opts)) of
             Inl e \<Rightarrow>
               (CbErr (mapNodeError (Some e)), w,
                [(''stat'', [VStr path]),
                 (''writeFile'', [VStr path, VStr dat, VStr (encodingOf opts)])])
           | Inr s' \<Rightarrow>
               (case statObject pf s' path of
                  Inl e \<Rightarrow> CbErr (mapNodeError (Some e))
                | Inr obj \<Rightarrow> CbOk (mapNodeStats obj, Some True),
                w\<lparr>fsState := s'\<rparr>,
                [(''stat'', [VStr path]),
                 (''writeFile'', [VStr path, VStr dat, VStr (encodingOf opts)])]))) \<and>
    (\<forall>e. fst (stat (dispatch pf) w path) = CbErr e \<and> e \<noteq> NOT_FOUND \<longrightarrow>
        writeFile (dispatch pf) w path dat opts = (CbErr e, w, [(''stat'', [VStr path])]))"
proof (intro conjI allI impI)
  fix stats h
  assume a: "fst (stat (dispatch pf) w path) = CbOk stats \<and> opt_hash opts = Some h \<and> h \<noteq> fss_hash stats"
  then obtain obj where o: "statObject pf (fsState w) path = Inr obj" and s: "stats = mapNodeStats obj"
    by (auto simp: stat_dispatch split: sum.splits)
  then have "dispatch pf ''stat'' [VStr path] w = (Inr (WObject obj), w)"
    by (simp add: dispatch_stat_shape)
  from writeFile_stale [where chan = "dispatch pf" and opts = opts and h = h and dat = dat, OF this] a s
  show "writeFile (dispatch pf) w path dat opts = (CbErr CONTENTS_MODIFIED, w, [(''stat'', [VStr path])])"
    by (simp add: mapNodeStats_def)
next
  assume a: "fst (stat (dispatch pf) w path) = CbErr NOT_FOUND"
  then obtain e where e: "statObject pf (fsState w) path = Inl e" and m: "mapNodeError (Some e) = NOT_FOUND"
    by (auto simp: stat_dispatch split: sum.splits)
  then have d: "dispatch pf ''stat'' [VStr path] w = (Inl (Some e), w)"
    by (simp add: dispatch_stat_shape)
  note wf = writeFile_not_found [where chan = "dispatch pf" and dat = dat and opts = opts, OF d m]
  from e coherent have n: "\<not> os_exists pf (fsState w) path" by auto
  show "writeFile (dispatch pf) w path dat opts =
          (case os_writeFile pf (fsState w) path dat (VStr (encodingOf opts)) of
             Inl e \<Rightarrow>
               (CbErr (mapNodeError (Some e)), w,
                [(''stat'', [VStr path]),
                 (''writeFile'', [VStr path, VStr dat, VStr (encodingOf opts)])])
           | Inr s' \<Rightarrow>
               (case statObject pf s' path of
                  Inl e \<Rightarrow> CbErr (mapNodeError (Some e))
                | Inr obj \<Rightarrow> CbOk (mapNodeStats obj, Some True),
                w\<lparr>fsState := s'\<rparr>,
                [(''stat'', [VStr path]),
                 (''writeFile'', [VStr path, VStr dat, VStr (encodingOf opts)])]))"
    by (simp add: wf finishWrite_dispatch n split: sum.splits)
next
  fix e
  assume a: "fst (stat (dispatch pf) w path) = CbErr e \<and> e \<noteq> NOT_FOUND"
  then obtain x where x: "statObject pf (fsState w) path = Inl x" and m: "mapNodeError (Some x) = e"
    by (auto simp: stat_dispatch split: sum.splits)
  then have d: "dispatch pf ''stat'' [VStr path] w = (Inl (Some x), w)"
    by (simp add: dispatch_stat_shape)
  from writeFile_stat_failed [where chan = "dispatch pf" and dat = dat and opts = opts, OF d] a m
  show "writeFile (dispatch pf) w path dat opts = (CbErr e, w, [(''stat'', [VStr path])])"
    by simp
qed

theorem writeFile_optimistic_witness:
  "writeFile (dispatch treePlatform) demoWorker [47, 100, 47, 102] [104]
     \<lparr>opt_encoding = None, opt_hash = Some 3\<rparr> =
     (CbErr CONTENTS_MODIFIED, demoWorker, [(''stat'', [VStr [47, 100, 47, 102]])]) \<and>
   writeFile (dispatch treePlatform) demoWorker [47, 120] [104]
     \<lparr>opt_encoding = None, opt_hash = Some 3\<rparr> =
     (CbOk (\<lparr>fss_isFile = True, fss_mtime = 1, fss_size = 1, fss_hash = 1, fss_realPath = None\<rparr>,
            Some True),
      demoWorker\<lparr>fsState := demoTree @ [([47, 120], FileNode [104] 1)]\<rparr>,
      [(''stat'', [VStr [47, 120]]),
       (''writeFile'', [VStr [47, 120], VStr [104], VStr (js ''utf8'')])]) \<and>
   writeFile (dispatch treePlatform) demoWorker [47, 115] [104]
     \<lparr>opt_encoding = None, opt_hash = Some 3\<rparr> =
     (CbErr NOT_READABLE, demoWorker, [(''stat'', [VStr [47, 115]])])"
proof -
  let ?o = "\<lparr>opt_encoding = None, opt_hash = Some 3\<rparr>"
  have e: "encodingOf ?o = js ''utf8''"
    by (simp add: encodingOf_def)
  have c1: "os_exists treePlatform (fsState demoWorker) [47, 100, 47, 102] \<Longrightarrow>
            \<not> isl (statObject treePlatform (fsState demoWorker) [47, 100, 47, 102])"
    by (simp add: statObject_def statTarget_def stripSlash_def SLASH_def tree_defs)
  have c2: "os_exists treePlatform (fsState demoWorker) [47, 120] \<Longrightarrow>
            \<not> isl (statObject treePlatform (fsState demoWorker) [47, 120])"
    by (simp add: tree_defs)
  have c3: "os_exists treePlatform (fsState demoWorker) [47, 115] \<Longrightarrow>
            \<not> isl (statObject treePlatform (fsState demoWorker) [47, 115])"
    by (simp add: tree_defs)
  have s1: "fst (stat (dispatch treePlatform) demoWorker [47, 100, 47, 102]) = CbOk \<lparr>fss_isFile = True, fss_mtime = 7, fss_size = 2, fss_hash = 7, fss_realPath = None\<rparr>"
    by (simp add: stat_dispatch statObject_def statTarget_def stripSlash_def SLASH_def
        getStatsObject_def mapNodeStats_def tree_defs)
  have s2: "fst (stat (dispatch treePlatform) demoWorker [47, 120]) = CbErr NOT_FOUND"
    by (simp add: stat_dispatch statObject_def statTarget_def stripSlash_def SLASH_def
        mapNodeError_def tree_defs)
  have s3: "fst (stat (dispatch treePlatform) demoWorker [47, 115]) = CbErr NOT_READABLE"
    by (simp add: stat_dispatch statObject_def statTarget_def stripSlash_def SLASH_def
        mapNodeError_def tree_defs)
  have w2: "os_writeFile treePlatform (fsState demoWorker) [47, 120] [104] (VStr (js ''utf8'')) =
              Inr (demoTree @ [([47, 120], FileNode [104] 1)])"
    by (simp add: tree_defs)
  have o2: "statObject treePlatform (demoTree @ [([47, 120], FileNode [104] 1)]) [47, 120] =
              Inr \<lparr>so_isFile = True, so_mtime = 1, so_size = 1, so_realpath = None,
                   so_data = None, so_created = None, so_name = None\<rparr>"
    by (simp add: statObject_def statTarget_def stripSlash_def SLASH_def getStatsObject_def
        tree_defs)
  from writeFile_optimistic [OF c1, of ?o "[104]"] s1
  have a: "writeFile (dispatch treePlatform) demoWorker [47, 100, 47, 102] [104] ?o =
     (CbErr CONTENTS_MODIFIED, demoWorker, [(''stat'', [VStr [47, 100, 47, 102]])])"
    by simp
  from writeFile_optimistic [OF c2, of ?o "[104]"] s2
  have b: "writeFile (dispatch treePlatform) demoWorker [47, 120] [104] ?o =
     (CbOk (\<lparr>fss_isFile = True, fss_mtime = 1, fss_size = 1, fss_hash = 1, fss_realPath = None\<rparr>,
            Some True),
      demoWorker\<lparr>fsState := demoTree @ [([47, 120], FileNode [104] 1)]\<rparr>,
      [(''stat'', [VStr [47, 120]]),
       (''writeFile'', [VStr [47, 120], VStr [104], VStr (js ''utf8'')])])"
    by (simp add: e w2 o2 mapNodeStats_def)
  from writeFile_optimistic [OF c3, of ?o "[104]"] s3
  have c: "writeFile (dispatch treePlatform) demoWorker [47, 115] [104] ?o =
     (CbErr NOT_READABLE, demoWorker, [(''stat'', [VStr [47, 115]])])"
    by simp
  from a b c show ?thesis by simp
qed

section \<open>Coalescing of watcher changes\<close>

lemma fileWatcherChange_registers:
  "fileWatcherChange n c = (case registers n of None \<Rightarrow> c | Some (k, b) \<Rightarrow> enqueueChange k b c)"
  by (cases n) (simp add: fileWatcherChange_def registers_def split: option.splits)

lemma slash_not_inherited: "SLASH \<in> set p \<Longrightarrow> \<not> inheritedName p"
  by (auto simp: inheritedName_def objectPrototypeFunctions_def PROTO_def js_def SLASH_def)

lemma readPending_plain:
  "\<not> inheritedName p \<Longrightarrow> readPending pending p = (map_of pending p = Some True)"
  by (auto simp: readPending_def split: option.splits)

lemma map_of_enqueueChange:
  "map_of (pendingChanges (enqueueChange k b c)) p =
     (if k = PROTO then map_of (pendingChanges c) p
      else if p = k then Some (readPending (pendingChanges c) k \<or> b)
      else map_of (pendingChanges c) p)"
  by (simp add: enqueueChange_def update_conv')

lemma map_of_enqueueChange_plain:
  "\<not> inheritedName p \<Longrightarrow>
   map_of (pendingChanges (enqueueChange k b c)) p =
     (if p = k then Some (map_of (pendingChanges c) p = Some True \<or> b)
      else map_of (pendingChanges c) p)"
  by (auto simp: map_of_enqueueChange readPending_plain inheritedName_def)

lemma distinct_enqueueChange:
  "distinct (map fst (pendingChanges c)) \<Longrightarrow> distinct (map fst (pendingChanges (enqueueChange k b c)))"
  by (simp add: enqueueChange_def distinct_update)

lemma changeCallback_enqueueChange [simp]:
  "changeCallback (enqueueChange k b c) = changeCallback c"
  by (simp add: enqueueChange_def)

lemma registrations_Cons:
  "registrations (n # ns) = (case registers n of None \<Rightarrow> registrations ns | Some r \<Rightarrow> r # registrations ns)"
  by (simp add: registrations_def List.map_filter_simps split: option.splits)

lemma fold_step_None:
  "registers n = None \<Longrightarrow> fold fileWatcherChange (n # ns) c = fold fileWatcherChange ns c"
proof -
  assume "registers n = None"
  then have "fileWatcherChange n c = c" by (simp add: fileWatcherChange_registers)
  then show ?thesis by simp
qed

lemma fold_step_Some:
  "registers n = Some (k, b) \<Longrightarrow>
   fold fileWatcherChange (n # ns) c = fold fileWatcherChange ns (enqueueChange k b c)"
proof -
  assume "registers n = Some (k, b)"
  then have "fileWatcherChange n c = enqueueChange k b c" by (simp add: fileWatcherChange_registers)
  then show ?thesis by simp
qed

lemma key_of_pair: "(p, b) \<in> set xs \<Longrightarrow> p \<in> fst ` set xs"
  by force

lemma fold_fileWatcherChange:
  assumes p: "\<not> inheritedName p"
  shows "map_of (pendingChanges (fold fileWatcherChange ns c)) p =
     (if p \<in> fst ` set (registrations ns)
      then Some (map_of (pendingChanges c) p = Some True \<or> (p, True) \<in> set (registrations ns))
      else map_of (pendingChanges c) p)"
proof (induction ns arbitrary: c)
  case Nil
  show ?case by (simp add: registrations_def List.map_filter_simps)
next
  case (Cons n ns)
  show ?case
  proof (cases "registers n")
    case None
    show ?thesis
      unfolding fold_step_None [OF None] by (simp add: Cons.IH registrations_Cons None)
  next
    case (Some r)
    obtain k b where r: "r = (k, b)" by (cases r)
    with Some have s: "registers n = Some (k, b)" by simp
    have st: "map_of (pendingChanges (enqueueChange k b c)) p =
       (if p = k then Some (map_of (pendingChanges c) p = Some True \<or> b)
        else map_of (pendingChanges c) p)"
      by (rule map_of_enqueueChange_plain [OF p])
    show ?thesis
    proof (cases "k = p")
      case True
      have "registrations (n # ns) = (p, b) # registrations ns"
        by (simp add: registrations_Cons s True)
      then show ?thesis
        unfolding fold_step_Some [OF s]
        using st True by (cases b) (auto simp: Cons.IH image_iff)
    next
      case False
      have "registrations (n # ns) = (k, b) # registrations ns"
        by (simp add: registrations_Cons s)
      then show ?thesis
        unfolding fold_step_Some [OF s]
        using st False by (auto simp: Cons.IH image_iff)
    qed
  qed
qed

lemma fold_fileWatcherChange_distinct:
  "distinct (map fst (pendingChanges c)) \<Longrightarrow>
   distinct (map fst (pendingChanges (fold fileWatcherChange ns c)))"
proof (induction ns arbitrary: c)
  case Nil
  then show ?case by simp
next
  case (Cons n ns)
  show ?case
  proof (cases "registers n")
    case None
    show ?thesis unfolding fold_step_None [OF None] by (rule Cons.IH [OF Cons.prems])
  next
    case (Some r)
    obtain k b where "r = (k, b)" by (cases r)
    with Some have s: "registers n = Some (k, b)" by simp
    show ?thesis
      unfolding fold_step_Some [OF s]
      by (rule Cons.IH [OF distinct_enqueueChange [OF Cons.prems]])
  qed
qed

lemma fold_fileWatcherChange_callback:
  "changeCallback (fold fileWatcherChange ns c) = changeCallback c"
proof (induction ns arbitrary: c)
  case Nil
  show ?case by simp
next
  case (Cons n ns)
  show ?case
  proof (cases "registers n")
    case None
    show ?thesis unfolding fold_step_None [OF None] by (rule Cons.IH)
  next
    case (Some r)
    obtain k b where "r = (k, b)" by (cases r)
    with Some have s: "registers n = Some (k, b)" by simp
    show ?thesis unfolding fold_step_Some [OF s] by (simp add: Cons.IH)
  qed
qed

lemma window_flag:
  "\<not> inheritedName p \<Longrightarrow>
   map_of (pendingChanges (window cb ns)) p =
     (if p \<in> fst ` set (registrations ns) then Some ((p, True) \<in> set (registrations ns)) else None)"
  by (simp add: window_def fold_fileWatcherChange)

lemma filter_flushEntry:
  "filter (\<lambda>out. pathOf out = p) (flushEntry statf (q, b)) = (if q = p then flushEntry statf (q, b) else [])"
  by (auto simp: flushEntry_def split: cb.splits)

lemma filter_flush_entries:
  "distinct (map fst al) \<Longrightarrow>
   filter (\<lambda>out. pathOf out = p) (concat (map (flushEntry statf) al)) =
     (case map_of al p of None \<Rightarrow> [] | Some b \<Rightarrow> flushEntry statf (p, b))"
proof (induction al)
  case Nil
  show ?case by simp
next
  case (Cons e al)
  obtain q b where e: "e = (q, b)" by (cases e)
  show ?case
  proof (cases "q = p")
    case True
    with Cons.prems e have "map_of al p = None"
      by (simp add: map_of_eq_None_iff)
    with Cons True e show ?thesis by (simp add: filter_flushEntry)
  next
    case False
    with Cons e show ?thesis by (simp add: filter_flushEntry)
  qed
qed

lemma flushed_pending:
  "flushed statf ns p =
     (case map_of (pendingChanges (window True ns)) p of
        None \<Rightarrow> []
      | Some b \<Rightarrow> flushEntry statf (p, b))"
proof -
  have d: "distinct (map fst (pendingChanges (window True ns)))"
    by (simp add: window_def fold_fileWatcherChange_distinct)
  have c: "changeCallback (window True ns)"
    by (simp add: window_def fold_fileWatcherChange_callback)
  show ?thesis
    by (simp add: flushed_def flush_def c filter_flush_entries [OF d])
qed

lemma flushed_entry:
  "\<not> inheritedName p \<Longrightarrow>
   flushed statf ns p =
     (if p \<in> fst ` set (registrations ns)
      then flushEntry statf (p, (p, True) \<in> set (registrations ns)) else [])"
  by (simp add: flushed_pending window_flag)

lemma flag_only_strengthens:
  "map_of (pendingChanges c) p = Some True \<Longrightarrow>
   map_of (pendingChanges (fileWatcherChange n c)) p = Some True"
  by (cases "registers n")
     (auto simp: fileWatcherChange_registers map_of_enqueueChange readPending_def)

text \<open>
  Claim C7, as the code has it. For a path that is not the name of a property every
  object inherits (no path that holds a separator is), and with a change callback
  registered: the flag of the path at the end of a window is the disjunction of the
  flags of all the registrations of that path in the window, and a flag that is true
  stays true; a path with structural registrations only is flushed with one call of the
  change callback, with no stats and no stat request; a path with a content-changed
  registration is flushed with exactly one stat request and, when that stat succeeds,
  with exactly one call of the change callback, which carries the stats of that request.
\<close>

theorem needsStats_is_disjunction:
  assumes "\<not> inheritedName p"
  shows
  "map_of (pendingChanges (window True ns)) p =
     (if p \<in> fst ` set (registrations ns) then Some ((p, True) \<in> set (registrations ns)) else None) \<and>
   (\<forall>n c. map_of (pendingChanges c) p = Some True \<longrightarrow>
      map_of (pendingChanges (fileWatcherChange n c)) p = Some True) \<and>
   (p \<in> fst ` set (registrations ns) \<and> (p, True) \<notin> set (registrations ns) \<longrightarrow>
      flushed statf ns p = [Change p None]) \<and>
   ((p, True) \<in> set (registrations ns) \<longrightarrow>
      (\<exists>rest. flushed statf ns p = StatCall p # rest \<and> StatCall p \<notin> set rest)) \<and>
   (\<forall>stats. (p, True) \<in> set (registrations ns) \<and> statf p = CbOk stats \<longrightarrow>
      flushed statf ns p = [StatCall p, Change p (Some stats)])"
  using assms
  by (auto simp: window_flag flag_only_strengthens flushed_entry flushEntry_def key_of_pair
      split: cb.splits)

theorem needsStats_is_disjunction_witness:
  "\<not> inheritedName [47, 100, 47] \<and> \<not> inheritedName [47, 100, 47, 102] \<and>
   registrations
     [([47, 100, 47], ''change'', Some [102]), ([47, 100, 47], ''rename'', None),
      ([47, 100, 47, 102], ''rename'', None)] =
     [([47, 100, 47, 102], True), ([47, 100, 47], False), ([47, 100, 47, 102], False)] \<and>
   map_of (pendingChanges (window True
     [([47, 100, 47], ''change'', Some [102]), ([47, 100, 47], ''rename'', None),
      ([47, 100, 47, 102], ''rename'', None)])) [47, 100, 47, 102] = Some True \<and>
   map_of (pendingChanges (fileWatcherChange ([47, 100, 47, 102], ''rename'', None) (window True
     [([47, 100, 47], ''change'', Some [102]), ([47, 100, 47], ''rename'', None),
      ([47, 100, 47, 102], ''rename'', None)]))) [47, 100, 47, 102] = Some True \<and>
   flushed (\<lambda>p. CbOk \<lparr>fss_isFile = True, fss_mtime = 7, fss_size = 2, fss_hash = 7, fss_realPath = None\<rparr>)
     [([47, 100, 47], ''change'', Some [102]), ([47, 100, 47], ''rename'', None),
      ([47, 100, 47, 102], ''rename'', None)] [47, 100, 47] = [Change [47, 100, 47] None] \<and>
   flushed (\<lambda>p. CbOk \<lparr>fss_isFile = True, fss_mtime = 7, fss_size = 2, fss_hash = 7, fss_realPath = None\<rparr>)
     [([47, 100, 47], ''change'', Some [102]), ([47, 100, 47], ''rename'', None),
      ([47, 100, 47, 102], ''rename'', None)] [47, 100, 47, 102] =
     [StatCall [47, 100, 47, 102], Change [47, 100, 47, 102] (Some \<lparr>fss_isFile = True, fss_mtime = 7, fss_size = 2, fss_hash = 7, fss_realPath = None\<rparr>)]"
proof -
  let ?ns = "[([47, 100, 47], ''change'', Some [102]), ([47, 100, 47], ''rename'', None),
      ([47, 100, 47, 102], ''rename'', None)] :: notification list"
  let ?statf = "(\<lambda>p. CbOk \<lparr>fss_isFile = True, fss_mtime = 7, fss_size = 2, fss_hash = 7, fss_realPath = None\<rparr>) :: jsstring \<Rightarrow> FileSystemStats cb"
  have n1: "\<not> inheritedName [47, 100, 47]"
    by (rule slash_not_inherited) (simp add: SLASH_def)
  have n2: "\<not> inheritedName [47, 100, 47, 102]"
    by (rule slash_not_inherited) (simp add: SLASH_def)
  have r: "registrations ?ns =
             [([47, 100, 47, 102], True), ([47, 100, 47], False), ([47, 100, 47, 102], False)]"
    by (simp add: registrations_def registers_def)
  note t = needsStats_is_disjunction [OF n2, of ?ns ?statf]
  from t have a: "map_of (pendingChanges (window True ?ns)) [47, 100, 47, 102] = Some True"
    by (simp add: r)
  from t [THEN conjunct2, THEN conjunct1,
      THEN spec [of _ "([47, 100, 47, 102], ''rename'', None)"],
      THEN spec [of _ "window True ?ns"]] a
  have m: "map_of (pendingChanges (fileWatcherChange ([47, 100, 47, 102], ''rename'', None)
             (window True ?ns))) [47, 100, 47, 102] = Some True"
    by simp
  from t have b: "flushed ?statf ?ns [47, 100, 47, 102] =
              [StatCall [47, 100, 47, 102], Change [47, 100, 47, 102] (Some \<lparr>fss_isFile = True, fss_mtime = 7, fss_size = 2, fss_hash = 7, fss_realPath = None\<rparr>)]"
    by (simp add: r)
  from needsStats_is_disjunction [OF n1, of ?ns ?statf]
  have c: "flushed ?statf ?ns [47, 100, 47] = [Change [47, 100, 47] None]"
    by (simp add: r)
  from n1 n2 r a m b c show ?thesis by simp
qed

text \<open>
  A path with a content-changed notification whose stat fails: the flush issues the
  stat request, logs the failure and calls the change callback for no path, so the
  path is flushed with no stat record. And the path \<open>toString\<close>, with one structural
  notification and no other: the read of \<open>_pendingChanges["toString"]\<close> gives the
  inherited function, the flag stored is truthy, and the path is flushed with a stat
  request and its stats.
\<close>

theorem flush_counterexample:
  "registrations [([47, 100, 47], ''change'', Some [102])] = [([47, 100, 47, 102], True)] \<and>
   fst (flush (\<lambda>p. CbErr NOT_FOUND) (window True [([47, 100, 47], ''change'', Some [102])])) =
     [StatCall [47, 100, 47, 102], Warning [47, 100, 47, 102] NOT_FOUND] \<and>
   registrations [(js ''toString'', ''rename'', None)] = [(js ''toString'', False)] \<and>
   fst (flush (\<lambda>p. CbOk \<lparr>fss_isFile = True, fss_mtime = 7, fss_size = 2, fss_hash = 7,
                           fss_realPath = None\<rparr>)
          (window True [(js ''toString'', ''rename'', None)])) =
     [StatCall (js ''toString''),
      Change (js ''toString'')
        (Some \<lparr>fss_isFile = True, fss_mtime = 7, fss_size = 2, fss_hash = 7,
               fss_realPath = None\<rparr>)]"
proof -
  have a: "registrations [([47, 100, 47], ''change'', Some [102])] = [([47, 100, 47, 102], True)]"
    by (simp add: registrations_def registers_def)
  have np: "[47, 100, 47, 102] \<noteq> PROTO"
    by (simp add: PROTO_def js_def)
  have b: "fst (flush (\<lambda>p. CbErr NOT_FOUND) (window True [([47, 100, 47], ''change'', Some [102])])) =
     [StatCall [47, 100, 47, 102], Warning [47, 100, 47, 102] NOT_FOUND]"
    by (simp add: flush_def window_def fileWatcherChange_def enqueueChange_def flushEntry_def np)
  have c: "registrations [(js ''toString'', ''rename'', None)] = [(js ''toString'', False)]"
    by (simp add: registrations_def registers_def)
  have i: "inheritedName (js ''toString'')"
    by (simp add: inheritedName_def objectPrototypeFunctions_def)
  have n: "js ''toString'' \<noteq> PROTO"
    by (simp add: PROTO_def js_def)
  have d: "fst (flush (\<lambda>p. CbOk \<lparr>fss_isFile = True, fss_mtime = 7, fss_size = 2, fss_hash = 7,
                           fss_realPath = None\<rparr>)
          (window True [(js ''toString'', ''rename'', None)])) =
     [StatCall (js ''toString''),
      Change (js ''toString'')
        (Some \<lparr>fss_isFile = True, fss_mtime = 7, fss_size = 2, fss_hash = 7,
               fss_realPath = None\<rparr>)]"
    by (simp add: flush_def window_def fileWatcherChange_def enqueueChange_def flushEntry_def
        readPending_def i n)
  from a b c d show ?thesis by simp
qed

text \<open>
  Claim C9. With a change callback registered, for a path that is flushed with its flag
  set and whose stat fails: the flush issues one stat request for the path, logs the
  failure and does not call the change callback for it, which is only ever given a path
  and stats, never an error. Every other path of the same flush is delivered as if
  nothing had failed: with no stats when its flag is not set, with its stats when its
  flag is set and its own stat succeeds. The flush leaves no pending change and no
  timer behind, so nothing is tried again.
\<close>

theorem flush_stat_failure:
  assumes "map_of (pendingChanges (window True ns)) p = Some True" and "statf p = CbErr err"
  shows "flushed statf ns p = [StatCall p, Warning p err] \<and>
         (\<forall>q. q \<noteq> p \<and> map_of (pendingChanges (window True ns)) q = Some False \<longrightarrow>
            flushed statf ns q = [Change q None]) \<and>
         (\<forall>q stats. q \<noteq> p \<and> map_of (pendingChanges (window True ns)) q = Some True \<and>
              statf q = CbOk stats \<longrightarrow>
            flushed statf ns q = [StatCall q, Change q (Some stats)]) \<and>
         pendingChanges (snd (flush statf (window True ns))) = [] \<and>
         changeTimeout (snd (flush statf (window True ns))) = False"
  using assms by (auto simp: flushed_pending flushEntry_def flush_def)

theorem flush_stat_failure_witness:
  "map_of (pendingChanges (window True
     [([47, 100, 47], ''change'', Some [102]), ([47, 100, 47], ''rename'', None),
      ([47, 101, 47], ''change'', Some [103])])) [47, 100, 47, 102] = Some True \<and>
   flushed (\<lambda>p. if p = [47, 100, 47, 102] then CbErr NOT_FOUND
         else CbOk \<lparr>fss_isFile = True, fss_mtime = 7, fss_size = 2, fss_hash = 7, fss_realPath = None\<rparr>)
     [([47, 100, 47], ''change'', Some [102]), ([47, 100, 47], ''rename'', None),
      ([47, 101, 47], ''change'', Some [103])] [47, 100, 47, 102] =
     [StatCall [47, 100, 47, 102], Warning [47, 100, 47, 102] NOT_FOUND] \<and>
   flushed (\<lambda>p. if p = [47, 100, 47, 102] then CbErr NOT_FOUND
         else CbOk \<lparr>fss_isFile = True, fss_mtime = 7, fss_size = 2, fss_hash = 7, fss_realPath = None\<rparr>)
     [([47, 100, 47], ''change'', Some [102]), ([47, 100, 47], ''rename'', None),
      ([47, 101, 47], ''change'', Some [103])] [47, 100, 47] = [Change [47, 100, 47] None] \<and>
   flushed (\<lambda>p. if p = [47, 100, 47, 102] then CbErr NOT_FOUND
         else CbOk \<lparr>fss_isFile = True, fss_mtime = 7, fss_size = 2, fss_hash = 7, fss_realPath = None\<rparr>)
     [([47, 100, 47], ''change'', Some [102]), ([47, 100, 47], ''rename'', None),
      ([47, 101, 47], ''change'', Some [103])] [47, 101, 47, 103] =
     [StatCall [47, 101, 47, 103], Change [47, 101, 47, 103] (Some \<lparr>fss_isFile = True, fss_mtime = 7, fss_size = 2, fss_hash = 7, fss_realPath = None\<rparr>)]"
proof -
  let ?ns = "[([47, 100, 47], ''change'', Some [102]), ([47, 100, 47], ''rename'', None),
      ([47, 101, 47], ''change'', Some [103])] :: notification list"
  let ?statf = "(\<lambda>p. if p = [47, 100, 47, 102] then CbErr NOT_FOUND
         else CbOk \<lparr>fss_isFile = True, fss_mtime = 7, fss_size = 2, fss_hash = 7, fss_realPath = None\<rparr>) :: jsstring \<Rightarrow> FileSystemStats cb"
  have r: "registrations ?ns =
             [([47, 100, 47, 102], True), ([47, 100, 47], False), ([47, 101, 47, 103], True)]"
    by (simp add: registrations_def registers_def)
  have n1: "\<not> inheritedName [47, 100, 47, 102]"
    by (rule slash_not_inherited) (simp add: SLASH_def)
  have n2: "\<not> inheritedName [47, 100, 47]"
    by (rule slash_not_inherited) (simp add: SLASH_def)
  have n3: "\<not> inheritedName [47, 101, 47, 103]"
    by (rule slash_not_inherited) (simp add: SLASH_def)
  have h1: "map_of (pendingChanges (window True ?ns)) [47, 100, 47, 102] = Some True"
    by (simp add: window_flag [OF n1] r)
  have g2: "map_of (pendingChanges (window True ?ns)) [47, 100, 47] = Some False"
    by (simp add: window_flag [OF n2] r)
  have g3: "map_of (pendingChanges (window True ?ns)) [47, 101, 47, 103] = Some True"
    by (simp add: window_flag [OF n3] r)
  have h2: "?statf [47, 100, 47, 102] = CbErr NOT_FOUND"
    by simp
  note t = flush_stat_failure [of ?ns "[47, 100, 47, 102]" ?statf NOT_FOUND, OF h1 h2]
  from t have a: "flushed ?statf ?ns [47, 100, 47, 102] =
                    [StatCall [47, 100, 47, 102], Warning [47, 100, 47, 102] NOT_FOUND]"
    by (rule conjunct1)
  from t [THEN conjunct2, THEN conjunct1, THEN spec [of _ "[47, 100, 47]"]] g2
  have b: "flushed ?statf ?ns [47, 100, 47] = [Change [47, 100, 47] None]"
    by simp
  from t [THEN conjunct2, THEN conjunct2, THEN conjunct1,
      THEN spec [of _ "[47, 101, 47, 103]"], THEN spec [of _ "\<lparr>fss_isFile = True, fss_mtime = 7, fss_size = 2, fss_hash = 7, fss_realPath = None\<rparr>"]] g3
  have c: "flushed ?statf ?ns [47, 101, 47, 103] =
        [StatCall [47, 101, 47, 103], Change [47, 101, 47, 103] (Some \<lparr>fss_isFile = True, fss_mtime = 7, fss_size = 2, fss_hash = 7, fss_realPath = None\<rparr>)]"
    by simp
  from h1 a b c show ?thesis by simp
qed

end
